theory Spec2Isabelle
  imports Main "HOL-Library.Char_ord" "HOL-Library.List_Lexorder" "HOL-Library.Multiset"
begin

section \<open>The application menu of src/menu.ts\<close>

text \<open>
  The module builds the declarative template of the native menu (\<open>mainMenuTemplate\<close>),
  installs it (\<open>setApplicationMenu\<close>, \<open>refreshMenu\<close>) and defines the click handlers of
  its items. The template is an object literal of the host toolkit's item options; the
  handlers are closures over the window and over the identifiers of the loops that
  create them. Here a handler is a value of the datatype \<open>click\<close>, one constructor per
  closure body of the source, with the captured variables as arguments; \<open>run_click\<close>
  gives each constructor the body of its closure.
\<close>

subsection \<open>Values of the host language\<close>

text \<open>
  What a configuration path, a \<open>checked\<close> property or the result of a dialog can hold.
  \<open>truthy\<close> is the coercion of \<open>if (v)\<close>, \<open>!v\<close> and \<open>a && b\<close>: a string is truthy when
  it is not empty, an array always.
\<close>

datatype jsval =
    JUndefined
  | JNull
  | JBool bool
  | JStr string
  | JArr "string list"

fun truthy :: "jsval \<Rightarrow> bool" where
  "truthy JUndefined = False"
| "truthy JNull = False"
| "truthy (JBool b) = b"
| "truthy (JStr s) = (s \<noteq> [])"
| "truthy (JArr xs) = True"

text \<open>\<open>!v\<close>\<close>

definition js_not :: "jsval \<Rightarrow> jsval" where
  "js_not v = JBool (\<not> truthy v)"

text \<open>\<open>a && b\<close>: the left operand when it is falsy, else the right one.\<close>

definition js_and :: "jsval \<Rightarrow> jsval \<Rightarrow> jsval" where
  "js_and a b = (if truthy a then b else a)"

text \<open>\<open>v === 'name'\<close> against a string.\<close>

definition strict_eq_str :: "jsval \<Rightarrow> string \<Rightarrow> jsval" where
  "strict_eq_str v s = JBool (v = JStr s)"

text \<open>\<open>v?.length === 0\<close>: \<open>undefined\<close> and \<open>null\<close> short-circuit to \<open>undefined\<close>, a
  boolean has no length.\<close>

fun length_is_zero :: "jsval \<Rightarrow> jsval" where
  "length_is_zero JUndefined = JBool False"
| "length_is_zero JNull = JBool False"
| "length_is_zero (JBool b) = JBool False"
| "length_is_zero (JStr s) = JBool (length s = 0)"
| "length_is_zero (JArr xs) = JBool (length xs = 0)"

subsection \<open>Menu items\<close>

text \<open>\<open>Electron.MenuItemConstructorOptions\<close>, with the properties the module writes.
  Every property is optional; an absent \<open>checked\<close> is \<open>JUndefined\<close>.\<close>

datatype item_type = Normal | Separator | Checkbox | Radio

datatype callback = InnerRefreshMenu

text \<open>
  The click handlers, in the order of the source. \<open>'h\<close> is the type of the handlers
  of the items that plugins contribute: they are opaque to this module.
\<close>

datatype 'h click =
    PluginEnabledClick string bool "callback option"
      \<comment> \<open>\<open>pluginEnabledMenu\<close>: plugin, hasSubmenu, refreshMenu\<close>
  | SetMenuOptionChecked string
      \<comment> \<open>\<open>click(item) { config.setMenuOption(path, item.checked) }\<close>\<close>
  | ConfigSet string jsval
      \<comment> \<open>\<open>click() { config.set(path, value) }\<close>\<close>
  | ImportCssFile
  | SingleInstanceLock
  | AlwaysOnTop
  | HideMenu
  | TrayMode bool bool
      \<comment> \<open>the values written to \<open>options.tray\<close> and \<open>options.appVisible\<close>\<close>
  | SelectLanguage string
  | SetProxy
  | ToggleDevTools
  | EditConfig
  | GoBack
  | GoForward
  | CopyCurrentURL
  | Restart
  | Contributed 'h

datatype 'c item =
  Item (label: "string option") (type: "item_type option") (checked: jsval)
       (click: "'c option") (submenu: "'c item list option")
       (role: "string option") (accelerator: "string option")

text \<open>The shapes of object literal the source writes.\<close>

definition separator :: "'c item" where
  "separator = Item None (Some Separator) JUndefined None None None None"

definition role_item :: "string \<Rightarrow> 'c item" where
  "role_item r = Item None None JUndefined None None (Some r) None"

definition role_accel_item :: "string \<Rightarrow> string \<Rightarrow> 'c item" where
  "role_accel_item r a = Item None None JUndefined None None (Some r) (Some a)"

definition submenu_item :: "string \<Rightarrow> 'c item list \<Rightarrow> 'c item" where
  "submenu_item l xs = Item (Some l) None JUndefined None (Some xs) None None"

definition click_item :: "string \<Rightarrow> 'c \<Rightarrow> 'c item" where
  "click_item l h = Item (Some l) None JUndefined (Some h) None None None"

definition normal_item :: "string \<Rightarrow> 'c \<Rightarrow> 'c item" where
  "normal_item l h = Item (Some l) (Some Normal) JUndefined (Some h) None None None"

definition checkbox_item :: "string \<Rightarrow> jsval \<Rightarrow> 'c \<Rightarrow> 'c item" where
  "checkbox_item l c h = Item (Some l) (Some Checkbox) c (Some h) None None None"

definition radio_item :: "string \<Rightarrow> jsval \<Rightarrow> 'c \<Rightarrow> 'c item" where
  "radio_item l c h = Item (Some l) (Some Radio) c (Some h) None None None"

text \<open>An item and everything below it, in the order of display.\<close>

fun flatten :: "'c item \<Rightarrow> 'c item list" where
  "flatten (Item l ty c h sub r a) =
     Item l ty c h sub r a #
       (case sub of None \<Rightarrow> [] | Some xs \<Rightarrow> concat (map flatten xs))"

definition flatten_all :: "'c item list \<Rightarrow> 'c item list" where
  "flatten_all xs = concat (map flatten xs)"

subsection \<open>The collaborators of the module\<close>

text \<open>
  What the handlers do that is not a write to the configuration: the dialogs shown,
  the messages sent to the window and the calls into other modules, in order.
\<close>

datatype effect =
    ShowMessageBox "string option" string string
      \<comment> \<open>\<open>dialog.showMessageBox\<close>: type, title, message\<close>
  | SetLanguage string
  | Send string
      \<comment> \<open>\<open>win.webContents.send\<close>\<close>
  | RestartPromptMarked
  | ConfigEdit
  | AppRestart
  | HistoryBack
  | HistoryForward

text \<open>
  The state the handlers read and write: the configuration store, the enabled flag of
  each plugin, the process-wide single-instance lock, the window, the clipboard, the
  installed application menu, the number of calls of \<open>refreshMenu\<close> that have started
  and not yet completed, and the trace of effects.
\<close>

record 'h world =
  options :: "string \<Rightarrow> jsval"
  plugins_enabled :: "string \<Rightarrow> bool"
  hasSingleInstanceLock :: bool
  alwaysOnTop :: bool
  devToolsOpened :: bool
  canGoBack :: bool
  canGoForward :: bool
  currentURL :: string
  clipboard :: string
  applicationMenu :: "'h click item list"
  refreshMenu_pending :: nat
  effects :: "effect list"

text \<open>
  What the outside answers while a handler runs: the file paths of the open-file
  dialog, the output of the prompt (a string, or \<open>null\<close> on cancel) and whether the
  operating system grants the single-instance lock.
\<close>

record responses =
  filePaths :: jsval
  prompt_output :: jsval
  lock_granted :: bool

text \<open>
  What the module imports and does not change: the localisation function \<open>t\<close>, the
  plugin registry \<open>allPlugins\<close> (identifier and \<open>name\<close>, in the order of
  \<open>Object.keys\<close>), the entries of \<open>getAllMenuTemplate()\<close> after \<open>loadAllMenuPlugins\<close>,
  the language bundles (identifier, \<open>language.name\<close>, \<open>language['local-name']\<close>), the
  keys of \<open>startingPages\<close>, \<open>String.prototype.localeCompare\<close>, the platform tests of
  \<open>electron-is\<close>, \<open>process.platform\<close>, \<open>app.name\<close>, the constant \<open>inAppMenuActive\<close>
  read once when the module is loaded, and the handlers of contributed items.
\<close>

record 'h env =
  t :: "string \<Rightarrow> string"
  allPlugins :: "(string \<times> string option) list"
  getAllMenuTemplate :: "(string \<times> 'h item list) list"
  languageResources :: "(string \<times> string \<times> string) list"
  startingPages :: "string list"
  localeCompare :: "string \<Rightarrow> string \<Rightarrow> int"
  is_windows :: bool
  is_linux :: bool
  is_macOS :: bool
  platform :: string
  app_name :: string
  inAppMenuActive :: bool
  contributed_click :: "'h \<Rightarrow> bool \<Rightarrow> responses \<Rightarrow> 'h world \<Rightarrow> bool \<times> 'h world"

text \<open>
  Modelled from the spec: the configuration accessor of \<open>./config\<close>, which is not part of
  the sources. The spec gives the configuration as a mapping from dotted option path to
  a primitive value plus a mapping from plugin identifier to an enabled flag, with
  \<open>get(path)\<close>, \<open>set(path, value)\<close>, \<open>setMenuOption(path, value)\<close> (set, and mark for a
  possible restart prompt) and \<open>isEnabled\<close>, \<open>enable\<close>, \<open>disable\<close> on plugins.
\<close>

definition config_get :: "'h world \<Rightarrow> string \<Rightarrow> jsval" where
  "config_get w p = options w p"

definition config_set :: "string \<Rightarrow> jsval \<Rightarrow> 'h world \<Rightarrow> 'h world" where
  "config_set p v w = w\<lparr>options := (options w)(p := v)\<rparr>"

definition config_setMenuOption :: "string \<Rightarrow> jsval \<Rightarrow> 'h world \<Rightarrow> 'h world" where
  "config_setMenuOption p v w =
     (config_set p v w)\<lparr>effects := effects w @ [RestartPromptMarked]\<rparr>"

definition plugins_isEnabled :: "'h world \<Rightarrow> string \<Rightarrow> bool" where
  "plugins_isEnabled w p = plugins_enabled w p"

definition plugins_enable :: "string \<Rightarrow> 'h world \<Rightarrow> 'h world" where
  "plugins_enable p w = w\<lparr>plugins_enabled := (plugins_enabled w)(p := True)\<rparr>"

definition plugins_disable :: "string \<Rightarrow> 'h world \<Rightarrow> 'h world" where
  "plugins_disable p w = w\<lparr>plugins_enabled := (plugins_enabled w)(p := False)\<rparr>"

text \<open>\<open>dialog.showMessageBox(win, {type, title, message})\<close>\<close>

definition showMessageBox :: "string option \<Rightarrow> string \<Rightarrow> string \<Rightarrow> 'h world \<Rightarrow> 'h world" where
  "showMessageBox ty title message w =
     w\<lparr>effects := effects w @ [ShowMessageBox ty title message]\<rparr>"

text \<open>
  \<open>Array.prototype.sort(compare)\<close>: a stable sort; \<open>a\<close> stays before \<open>b\<close> unless
  \<open>compare(a, b) > 0\<close>. With a consistent comparator the result does not depend on the
  algorithm; this is insertion from the right.
\<close>

fun sort_insert :: "('a \<Rightarrow> 'a \<Rightarrow> int) \<Rightarrow> 'a \<Rightarrow> 'a list \<Rightarrow> 'a list" where
  "sort_insert cmp x [] = [x]"
| "sort_insert cmp x (y # ys) =
     (if cmp x y \<le> 0 then x # y # ys else y # sort_insert cmp x ys)"

fun array_sort :: "('a \<Rightarrow> 'a \<Rightarrow> int) \<Rightarrow> 'a list \<Rightarrow> 'a list" where
  "array_sort cmp [] = []"
| "array_sort cmp (x # xs) = sort_insert cmp x (array_sort cmp xs)"

subsection \<open>pluginEnabledMenu\<close>

definition pluginEnabledMenu ::
  "string \<Rightarrow> string \<Rightarrow> bool \<Rightarrow> callback option \<Rightarrow> 'h world \<Rightarrow> 'h click item" where
  "pluginEnabledMenu plugin lbl hasSubmenu refresh w =
     checkbox_item (if lbl \<noteq> [] then lbl else plugin)
       (JBool (plugins_isEnabled w plugin))
       (PluginEnabledClick plugin hasSubmenu refresh)"

subsection \<open>mainMenuTemplate\<close>

text \<open>\<open>allPlugins[id]?.name ?? id\<close>\<close>

definition pluginLabel :: "'h env \<Rightarrow> string \<Rightarrow> string" where
  "pluginLabel env pid =
     (case map_of (allPlugins env) pid of
        None \<Rightarrow> pid
      | Some None \<Rightarrow> pid
      | Some (Some n) \<Rightarrow> n)"

definition menuResult :: "'h env \<Rightarrow> 'h world \<Rightarrow> (string \<times> 'h click item) list" where
  "menuResult env w =
     map (\<lambda>(pid, template).
            if \<not> plugins_isEnabled w pid
            then (pid, pluginEnabledMenu pid (pluginLabel env pid) True (Some InnerRefreshMenu) w)
            else (pid,
              submenu_item (pluginLabel env pid)
                (pluginEnabledMenu pid (t env ''main.menu.plugins.enabled'') True
                     (Some InnerRefreshMenu) w
                 # separator
                 # map (map_item Contributed) template)))
         (getAllMenuTemplate env)"

definition availablePlugins :: "'h env \<Rightarrow> string list" where
  "availablePlugins env = map fst (allPlugins env)"

text \<open>The callback of \<open>.map((id) => ...)\<close> in \<open>pluginMenus\<close>.\<close>

definition plugin_entry :: "'h env \<Rightarrow> 'h world \<Rightarrow> string \<Rightarrow> 'h click item" where
  "plugin_entry env w pid =
     (case find (\<lambda>it. fst it = pid) (menuResult env w) of
        Some predefinedTemplate \<Rightarrow> snd predefinedTemplate
      | None \<Rightarrow>
          pluginEnabledMenu pid (pluginLabel env pid) True (Some InnerRefreshMenu) w)"

definition pluginMenus :: "'h env \<Rightarrow> 'h world \<Rightarrow> 'h click item list" where
  "pluginMenus env w =
     map (plugin_entry env w)
       (array_sort
          (\<lambda>a b. localeCompare env (pluginLabel env a) (pluginLabel env b))
          (availablePlugins env))"

definition availableLanguages :: "'h env \<Rightarrow> string list" where
  "availableLanguages env = map fst (languageResources env)"

text \<open>An options checkbox whose handler is \<open>config.setMenuOption(path, item.checked)\<close>.\<close>

definition option_checkbox :: "'h env \<Rightarrow> 'h world \<Rightarrow> string \<Rightarrow> string \<Rightarrow> 'h click item" where
  "option_checkbox env w key path =
     checkbox_item (t env key) (config_get w path) (SetMenuOptionChecked path)"

definition starting_page_submenu :: "'h env \<Rightarrow> 'h world \<Rightarrow> 'h click item list" where
  "starting_page_submenu env w =
     radio_item (t env ''main.menu.options.submenu.starting-page.unset'')
       (strict_eq_str (config_get w ''options.startingPage'') [])
       (ConfigSet ''options.startingPage'' (JStr []))
     # map (\<lambda>name.
            radio_item name
              (strict_eq_str (config_get w ''options.startingPage'') name)
              (ConfigSet ''options.startingPage'' (JStr name)))
         (startingPages env)"

definition like_buttons_submenu :: "'h env \<Rightarrow> 'h world \<Rightarrow> 'h click item list" where
  "like_buttons_submenu env w =
     [ radio_item
         (t env ''main.menu.options.submenu.visual-tweaks.submenu.like-buttons.default'')
         (js_not (config_get w ''options.likeButtons''))
         (ConfigSet ''options.likeButtons'' (JStr [])),
       radio_item
         (t env ''main.menu.options.submenu.visual-tweaks.submenu.like-buttons.force-show'')
         (strict_eq_str (config_get w ''options.likeButtons'') ''force'')
         (ConfigSet ''options.likeButtons'' (JStr ''force'')),
       radio_item
         (t env ''main.menu.options.submenu.visual-tweaks.submenu.like-buttons.hide'')
         (strict_eq_str (config_get w ''options.likeButtons'') ''hide'')
         (ConfigSet ''options.likeButtons'' (JStr ''hide'')) ]"

definition theme_submenu :: "'h env \<Rightarrow> 'h world \<Rightarrow> 'h click item list" where
  "theme_submenu env w =
     [ radio_item
         (t env ''main.menu.options.submenu.visual-tweaks.submenu.theme.submenu.no-theme'')
         (length_is_zero (config_get w ''options.themes''))
         (ConfigSet ''options.themes'' (JArr [])),
       separator,
       normal_item
         (t env ''main.menu.options.submenu.visual-tweaks.submenu.theme.submenu.import-css-file'')
         ImportCssFile ]"

definition visual_tweaks_submenu :: "'h env \<Rightarrow> 'h world \<Rightarrow> 'h click item list" where
  "visual_tweaks_submenu env w =
     [ option_checkbox env w
         ''main.menu.options.submenu.visual-tweaks.submenu.remove-upgrade-button''
         ''options.removeUpgradeButton'',
       submenu_item
         (t env ''main.menu.options.submenu.visual-tweaks.submenu.like-buttons.label'')
         (like_buttons_submenu env w),
       submenu_item
         (t env ''main.menu.options.submenu.visual-tweaks.submenu.theme.label'')
         (theme_submenu env w) ]"

definition single_instance_lock_item :: "'h env \<Rightarrow> 'h click item" where
  "single_instance_lock_item env =
     checkbox_item (t env ''main.menu.options.submenu.single-instance-lock'')
       (JBool True) SingleInstanceLock"

definition always_on_top_item :: "'h env \<Rightarrow> 'h world \<Rightarrow> 'h click item" where
  "always_on_top_item env w =
     checkbox_item (t env ''main.menu.options.submenu.always-on-top'')
       (config_get w ''options.alwaysOnTop'') AlwaysOnTop"

definition hide_menu_items :: "'h env \<Rightarrow> 'h world \<Rightarrow> 'h click item list" where
  "hide_menu_items env w =
     (if is_windows env \<or> is_linux env
      then [ checkbox_item (t env ''main.menu.options.submenu.hide-menu.label'')
               (config_get w ''options.hideMenu'') HideMenu ]
      else [])"

definition start_at_login_items :: "'h env \<Rightarrow> 'h world \<Rightarrow> 'h click item list" where
  "start_at_login_items env w =
     (if is_windows env \<or> is_macOS env
      then [ option_checkbox env w ''main.menu.options.submenu.start-at-login''
               ''options.startAtLogin'' ]
      else [])"

definition tray_submenu :: "'h env \<Rightarrow> 'h world \<Rightarrow> 'h click item list" where
  "tray_submenu env w =
     [ radio_item (t env ''main.menu.options.submenu.tray.submenu.disabled'')
         (js_not (config_get w ''options.tray''))
         (TrayMode False True),
       radio_item (t env ''main.menu.options.submenu.tray.submenu.enabled-and-show-app'')
         (js_and (config_get w ''options.tray'') (config_get w ''options.appVisible''))
         (TrayMode True True),
       radio_item (t env ''main.menu.options.submenu.tray.submenu.enabled-and-hide-app'')
         (js_and (config_get w ''options.tray'')
            (js_not (config_get w ''options.appVisible'')))
         (TrayMode True False),
       separator,
       option_checkbox env w ''main.menu.options.submenu.tray.submenu.play-pause-on-click''
         ''options.trayClickPlayPause'' ]"

definition language_submenu :: "'h env \<Rightarrow> 'h world \<Rightarrow> 'h click item list" where
  "language_submenu env w =
     map (\<lambda>(lang, name, local_name).
            checkbox_item (name @ '' ('' @ local_name @ '')'')
              (strict_eq_str (config_get w ''options.language'') lang)
              (SelectLanguage lang))
         (languageResources env)"

definition set_proxy_item :: "'h env \<Rightarrow> 'h click item" where
  "set_proxy_item env =
     normal_item
       (t env ''main.menu.options.submenu.advanced-options.submenu.set-proxy.label'')
       SetProxy"

definition advanced_options_submenu :: "'h env \<Rightarrow> 'h world \<Rightarrow> 'h click item list" where
  "advanced_options_submenu env w =
     [ set_proxy_item env,
       option_checkbox env w
         ''main.menu.options.submenu.advanced-options.submenu.override-user-agent''
         ''options.overrideUserAgent'',
       option_checkbox env w
         ''main.menu.options.submenu.advanced-options.submenu.disable-hardware-acceleration''
         ''options.disableHardwareAcceleration'',
       option_checkbox env w
         ''main.menu.options.submenu.advanced-options.submenu.restart-on-config-changes''
         ''options.restartOnConfigChanges'',
       option_checkbox env w
         ''main.menu.options.submenu.advanced-options.submenu.auto-reset-app-cache''
         ''options.autoResetAppCache'',
       separator,
       (if is_macOS env
        then click_item
               (t env ''main.menu.options.submenu.advanced-options.submenu.toggle-dev-tools'')
               ToggleDevTools
        else role_item ''toggleDevTools''),
       click_item
         (t env ''main.menu.options.submenu.advanced-options.submenu.edit-config-json'')
         EditConfig ]"

definition options_submenu :: "'h env \<Rightarrow> 'h world \<Rightarrow> 'h click item list" where
  "options_submenu env w =
     [ option_checkbox env w ''main.menu.options.submenu.auto-update''
         ''options.autoUpdates'',
       option_checkbox env w ''main.menu.options.submenu.resume-on-start''
         ''options.resumeOnStart'',
       submenu_item (t env ''main.menu.options.submenu.starting-page.label'')
         (starting_page_submenu env w),
       submenu_item (t env ''main.menu.options.submenu.visual-tweaks.label'')
         (visual_tweaks_submenu env w),
       single_instance_lock_item env,
       always_on_top_item env w ]
     @ hide_menu_items env w
     @ start_at_login_items env w
     @ [ submenu_item (t env ''main.menu.options.submenu.tray.label'')
           (tray_submenu env w),
         submenu_item (t env ''main.menu.options.submenu.language.label'')
           (language_submenu env w),
         separator,
         submenu_item (t env ''main.menu.options.submenu.advanced-options.label'')
           (advanced_options_submenu env w) ]"

definition view_submenu :: "'h env \<Rightarrow> 'h click item list" where
  "view_submenu env =
     [ role_item ''reload'',
       role_item ''forceReload'',
       separator,
       role_accel_item ''zoomIn'' (if platform env = ''darwin'' then ''Cmd+I'' else ''Ctrl+I''),
       role_accel_item ''zoomOut'' (if platform env = ''darwin'' then ''Cmd+O'' else ''Ctrl+O''),
       role_item ''resetZoom'',
       separator,
       role_item ''togglefullscreen'' ]"

definition navigation_submenu :: "'h env \<Rightarrow> 'h click item list" where
  "navigation_submenu env =
     [ click_item (t env ''main.menu.navigation.submenu.go-back'') GoBack,
       click_item (t env ''main.menu.navigation.submenu.go-forward'') GoForward,
       click_item (t env ''main.menu.navigation.submenu.copy-current-url'') CopyCurrentURL,
       click_item (t env ''main.menu.navigation.submenu.restart'') Restart,
       role_item ''quit'' ]"

definition mainMenuTemplate :: "'h env \<Rightarrow> 'h world \<Rightarrow> 'h click item list" where
  "mainMenuTemplate env w =
     [ submenu_item (t env ''main.menu.plugins.label'') (pluginMenus env w),
       submenu_item (t env ''main.menu.options.label'') (options_submenu env w),
       submenu_item (t env ''main.menu.view.label'') (view_submenu env),
       submenu_item (t env ''main.menu.navigation.label'') (navigation_submenu env),
       submenu_item (t env ''main.menu.about'') [role_item ''about''] ]"

subsection \<open>setApplicationMenu and refreshMenu\<close>

definition darwin_app_menu :: "'h env \<Rightarrow> 'h click item" where
  "darwin_app_menu env =
     submenu_item (app_name env)
       [ role_item ''about'', separator,
         role_item ''hide'', role_item ''hideOthers'', role_item ''unhide'', separator,
         role_item ''selectAll'', role_item ''cut'', role_item ''copy'', role_item ''paste'',
         separator,
         role_item ''minimize'', role_item ''close'', role_item ''quit'' ]"

definition setApplicationMenu :: "'h env \<Rightarrow> 'h world \<Rightarrow> 'h world" where
  "setApplicationMenu env w =
     w\<lparr>applicationMenu :=
         (if platform env = ''darwin''
          then darwin_app_menu env # mainMenuTemplate env w
          else mainMenuTemplate env w)\<rparr>"

definition refreshMenu :: "'h env \<Rightarrow> 'h world \<Rightarrow> 'h world" where
  "refreshMenu env w =
     (let w1 = setApplicationMenu env w
      in if inAppMenuActive env
         then w1\<lparr>effects := effects w1 @ [Send ''refresh-in-app-menu'']\<rparr>
         else w1)"

text \<open>
  The handlers call \<open>refreshMenu(win)\<close> without \<open>await\<close>. The call runs as far as the
  first \<open>await\<close> of \<open>mainMenuTemplate\<close>, which comes before anything is read from the
  configuration, and returns; the build, the installation and the message to the
  window follow once the handler's remaining statements have run. A call therefore only
  counts as started, and \<open>settle\<close> is the state once every started call has completed:
  each of them reads the state as the handler left it.
\<close>

definition refreshMenu_started :: "'h world \<Rightarrow> 'h world" where
  "refreshMenu_started w = w\<lparr>refreshMenu_pending := Suc (refreshMenu_pending w)\<rparr>"

fun complete_refreshMenu :: "nat \<Rightarrow> 'h env \<Rightarrow> 'h world \<Rightarrow> 'h world" where
  "complete_refreshMenu 0 env w = w"
| "complete_refreshMenu (Suc n) env w = complete_refreshMenu n env (refreshMenu env w)"

definition settle :: "'h env \<Rightarrow> 'h world \<Rightarrow> 'h world" where
  "settle env w =
     complete_refreshMenu (refreshMenu_pending w) env (w\<lparr>refreshMenu_pending := 0\<rparr>)"

subsection \<open>The click handlers\<close>

text \<open>
  \<open>setProxy(item, win)\<close>: \<open>item_checked\<close> is \<open>item.checked\<close> when the handler starts,
  \<open>output\<close> what the prompt resolves to. The result is \<open>item.checked\<close> afterwards and
  the new state.
\<close>

definition setProxy :: "bool \<Rightarrow> jsval \<Rightarrow> 'h world \<Rightarrow> bool \<times> 'h world" where
  "setProxy item_checked output w =
     (case output of
        JStr s \<Rightarrow> (s \<noteq> [], config_setMenuOption ''options.proxy'' (JStr s) w)
      | _ \<Rightarrow> (\<not> item_checked, w))"

text \<open>
  The body of each handler. \<open>item_checked\<close> is \<open>item.checked\<close> when the handler starts;
  the result is \<open>item.checked\<close> when it ends, and the new state. A handler that awaits a
  dialog or the prompt runs to its end; a call of \<open>refreshMenu\<close> is left started.
\<close>

fun run_click ::
  "'h env \<Rightarrow> 'h click \<Rightarrow> bool \<Rightarrow> responses \<Rightarrow> 'h world \<Rightarrow> bool \<times> 'h world" where
  "run_click env (PluginEnabledClick plugin hasSubmenu refresh) item_checked r w =
     (let w1 = (if item_checked then plugins_enable plugin w else plugins_disable plugin w)
      in (item_checked,
          if hasSubmenu
          then (case refresh of
                  Some InnerRefreshMenu \<Rightarrow> refreshMenu_started w1
                | None \<Rightarrow> w1)
          else w1))"
| "run_click env (SetMenuOptionChecked path) item_checked r w =
     (item_checked, config_setMenuOption path (JBool item_checked) w)"
| "run_click env (ConfigSet path v) item_checked r w =
     (item_checked, config_set path v w)"
| "run_click env ImportCssFile item_checked r w =
     (item_checked,
      if truthy (filePaths r) then config_set ''options.themes'' (filePaths r) w else w)"
| "run_click env SingleInstanceLock item_checked r w =
     (item_checked,
      if \<not> item_checked \<and> hasSingleInstanceLock w
      then w\<lparr>hasSingleInstanceLock := False\<rparr>
      else if item_checked \<and> \<not> hasSingleInstanceLock w
      then w\<lparr>hasSingleInstanceLock := lock_granted r\<rparr>
      else w)"
| "run_click env AlwaysOnTop item_checked r w =
     (item_checked,
      (config_setMenuOption ''options.alwaysOnTop'' (JBool item_checked) w)
        \<lparr>alwaysOnTop := item_checked\<rparr>)"
| "run_click env HideMenu item_checked r w =
     (let w1 = config_setMenuOption ''options.hideMenu'' (JBool item_checked) w
      in (item_checked,
          if item_checked \<and> \<not> truthy (config_get w1 ''options.hideMenuWarned'')
          then showMessageBox (Some ''info'')
                 (t env ''main.menu.options.submenu.hide-menu.dialog.title'')
                 (t env ''main.menu.options.submenu.hide-menu.dialog.message'') w1
          else w1))"
| "run_click env (TrayMode tray appVisible) item_checked r w =
     (item_checked,
      config_setMenuOption ''options.appVisible'' (JBool appVisible)
        (config_setMenuOption ''options.tray'' (JBool tray) w))"
| "run_click env (SelectLanguage lang) item_checked r w =
     (let w1 = config_setMenuOption ''options.language'' (JStr lang) w;
          w2 = refreshMenu_started w1;
          w3 = w2\<lparr>effects := effects w2 @ [SetLanguage lang]\<rparr>
      in (item_checked,
          showMessageBox None
            (t env ''main.menu.options.submenu.language.dialog.title'')
            (t env ''main.menu.options.submenu.language.dialog.message'') w3))"
| "run_click env SetProxy item_checked r w = setProxy item_checked (prompt_output r) w"
| "run_click env ToggleDevTools item_checked r w =
     (item_checked, w\<lparr>devToolsOpened := \<not> devToolsOpened w\<rparr>)"
| "run_click env EditConfig item_checked r w =
     (item_checked, w\<lparr>effects := effects w @ [ConfigEdit]\<rparr>)"
| "run_click env GoBack item_checked r w =
     (item_checked,
      if canGoBack w then w\<lparr>effects := effects w @ [HistoryBack]\<rparr> else w)"
| "run_click env GoForward item_checked r w =
     (item_checked,
      if canGoForward w then w\<lparr>effects := effects w @ [HistoryForward]\<rparr> else w)"
| "run_click env CopyCurrentURL item_checked r w =
     (item_checked, w\<lparr>clipboard := currentURL w\<rparr>)"
| "run_click env Restart item_checked r w =
     (item_checked, w\<lparr>effects := effects w @ [AppRestart]\<rparr>)"
| "run_click env (Contributed h) item_checked r w =
     contributed_click env h item_checked r w"

text \<open>
  The host toolkit's \<open>MenuItem.click\<close>: selecting a checkbox item flips its \<open>checked\<close>
  property and selecting a radio item sets it, before the handler of the template is
  called with the item; an item of any other type is passed as it is. \<open>item_checked\<close>
  is the property before the selection. The result is the state when the handler has
  ended; \<open>settle\<close> completes the calls of \<open>refreshMenu\<close> it has started.
\<close>

definition menu_item_selected ::
  "'h env \<Rightarrow> 'h click item \<Rightarrow> bool \<Rightarrow> responses \<Rightarrow> 'h world \<Rightarrow> bool \<times> 'h world" where
  "menu_item_selected env it item_checked r w =
     (let c = (case type it of
                 Some Checkbox \<Rightarrow> \<not> item_checked
               | Some Radio \<Rightarrow> True
               | _ \<Rightarrow> item_checked)
      in case click it of
           None \<Rightarrow> (c, w)
         | Some h \<Rightarrow> run_click env h c r w)"

text \<open>The property \<open>checked\<close> of the item the toolkit creates from a template entry.\<close>

definition initially_checked :: "'c item \<Rightarrow> bool" where
  "initially_checked it = truthy (checked it)"

subsection \<open>What the claims speak about\<close>

text \<open>The radio items of a submenu, and the items built checked.\<close>

definition radio_group :: "'c item list \<Rightarrow> 'c item list" where
  "radio_group items = filter (\<lambda>it. type it = Some Radio) items"

definition checked_items :: "'c item list \<Rightarrow> 'c item list" where
  "checked_items items = filter initially_checked items"

text \<open>
  The plugin a checkbox toggles, and the plugin checkbox of an entry of the Plugins
  group: the entry itself, or the first child of a wrapper submenu.
\<close>

definition checkbox_plugin :: "'h click item \<Rightarrow> string option" where
  "checkbox_plugin it =
     (case (type it, click it) of
        (Some Checkbox, Some (PluginEnabledClick p hasSubmenu refresh)) \<Rightarrow> Some p
      | _ \<Rightarrow> None)"

definition entry_checkbox :: "'h click item \<Rightarrow> 'h click item option" where
  "entry_checkbox e =
     (case submenu e of
        None \<Rightarrow> Some e
      | Some [] \<Rightarrow> None
      | Some (c # cs) \<Rightarrow> Some c)"

definition entry_plugin :: "'h click item \<Rightarrow> string option" where
  "entry_plugin e =
     (case entry_checkbox e of None \<Rightarrow> None | Some c \<Rightarrow> checkbox_plugin c)"

text \<open>The entries of the Plugins group of a built tree: the children of its first item.\<close>

definition plugins_group :: "'c item list \<Rightarrow> 'c item list" where
  "plugins_group tree =
     (case tree of
        [] \<Rightarrow> []
      | g # gs \<Rightarrow> (case submenu g of None \<Rightarrow> [] | Some entries \<Rightarrow> entries))"

text \<open>
  The configuration path to which a handler writes \<open>item.checked\<close>, and the options a
  tree displays through such checkboxes: path, item type and \<open>checked\<close>, in the order of
  display.
\<close>

fun bound_path :: "'h click \<Rightarrow> string option" where
  "bound_path (SetMenuOptionChecked path) = Some path"
| "bound_path AlwaysOnTop = Some ''options.alwaysOnTop''"
| "bound_path HideMenu = Some ''options.hideMenu''"
| "bound_path h = None"

definition displayed_option :: "'h click item \<Rightarrow> (string \<times> item_type option \<times> jsval) option" where
  "displayed_option it =
     (case click it of
        None \<Rightarrow> None
      | Some h \<Rightarrow> map_option (\<lambda>p. (p, type it, checked it)) (bound_path h))"

definition displayed_options :: "'h click item list \<Rightarrow> (string \<times> item_type option \<times> jsval) list" where
  "displayed_options items = List.map_filter displayed_option (flatten_all items)"

text \<open>
  The boolean configuration paths of the checkbox items that the spec lists for the
  Options group, in the order of display; hide-menu and start-at-login depend on the
  platform. Single-instance-lock is in the spec's list and has no configuration path.
\<close>

definition checkbox_paths :: "'h env \<Rightarrow> string list" where
  "checkbox_paths env =
     [''options.autoUpdates'', ''options.resumeOnStart'', ''options.removeUpgradeButton'',
      ''options.alwaysOnTop'']
     @ (if is_windows env \<or> is_linux env then [''options.hideMenu''] else [])
     @ (if is_windows env \<or> is_macOS env then [''options.startAtLogin''] else [])
     @ [''options.trayClickPlayPause'', ''options.overrideUserAgent'',
        ''options.disableHardwareAcceleration'', ''options.restartOnConfigChanges'',
        ''options.autoResetAppCache'']"

text \<open>
  The items of a tree that can be checked, checkboxes and radio items, without those
  that plugins contribute: handler and \<open>checked\<close>, in the order of display.
\<close>

definition checkable :: "'h click item \<Rightarrow> ('h click \<times> jsval) option" where
  "checkable it =
     (if type it = Some Checkbox \<or> type it = Some Radio
      then (case click it of
              None \<Rightarrow> None
            | Some (Contributed h) \<Rightarrow> None
            | Some h \<Rightarrow> Some (h, checked it))
      else None)"

definition checkables :: "'h click item list \<Rightarrow> ('h click \<times> jsval) list" where
  "checkables items = List.map_filter checkable (flatten_all items)"

text \<open>
  What the spec asks the menu to display, for each item that can be checked and in the
  order of display: the handler of the item and the value of \<open>checked\<close> that reflects
  the configuration. A plugin checkbox shows whether the plugin is enabled; an option
  checkbox shows the value of its path; an item of the starting-page or language group
  shows whether the stored value is the one it writes; the default item of the
  like-buttons group shows whether the stored value is falsy, the other two whether it
  is theirs; no-theme shows whether the theme list has length zero; the tray items test
  \<open>options.tray\<close> and \<open>options.appVisible\<close> for truthiness. Single-instance-lock has no
  configuration path and is always built checked.
\<close>

definition configuration_view :: "'h env \<Rightarrow> 'h world \<Rightarrow> ('h click \<times> jsval) list" where
  "configuration_view env w =
     map (\<lambda>pid. (PluginEnabledClick pid True (Some InnerRefreshMenu),
                 JBool (plugins_isEnabled w pid)))
       (array_sort (\<lambda>a b. localeCompare env (pluginLabel env a) (pluginLabel env b))
          (availablePlugins env))
     @ [(SetMenuOptionChecked ''options.autoUpdates'', config_get w ''options.autoUpdates''),
        (SetMenuOptionChecked ''options.resumeOnStart'',
           config_get w ''options.resumeOnStart'')]
     @ map (\<lambda>name. (ConfigSet ''options.startingPage'' (JStr name),
                    JBool (config_get w ''options.startingPage'' = JStr name)))
         ([] # startingPages env)
     @ [(SetMenuOptionChecked ''options.removeUpgradeButton'',
           config_get w ''options.removeUpgradeButton''),
        (ConfigSet ''options.likeButtons'' (JStr []),
           JBool (\<not> truthy (config_get w ''options.likeButtons''))),
        (ConfigSet ''options.likeButtons'' (JStr ''force''),
           JBool (config_get w ''options.likeButtons'' = JStr ''force'')),
        (ConfigSet ''options.likeButtons'' (JStr ''hide''),
           JBool (config_get w ''options.likeButtons'' = JStr ''hide'')),
        (ConfigSet ''options.themes'' (JArr []),
           length_is_zero (config_get w ''options.themes'')),
        (SingleInstanceLock, JBool True),
        (AlwaysOnTop, config_get w ''options.alwaysOnTop'')]
     @ (if is_windows env \<or> is_linux env
        then [(HideMenu, config_get w ''options.hideMenu'')] else [])
     @ (if is_windows env \<or> is_macOS env
        then [(SetMenuOptionChecked ''options.startAtLogin'',
                 config_get w ''options.startAtLogin'')]
        else [])
     @ [(TrayMode False True, JBool (\<not> truthy (config_get w ''options.tray''))),
        (TrayMode True True,
           if truthy (config_get w ''options.tray'')
           then config_get w ''options.appVisible''
           else config_get w ''options.tray''),
        (TrayMode True False,
           if truthy (config_get w ''options.tray'')
           then JBool (\<not> truthy (config_get w ''options.appVisible''))
           else config_get w ''options.tray''),
        (SetMenuOptionChecked ''options.trayClickPlayPause'',
           config_get w ''options.trayClickPlayPause'')]
     @ map (\<lambda>lang. (SelectLanguage lang,
                    JBool (config_get w ''options.language'' = JStr lang)))
         (availableLanguages env)
     @ [(SetMenuOptionChecked ''options.overrideUserAgent'',
           config_get w ''options.overrideUserAgent''),
        (SetMenuOptionChecked ''options.disableHardwareAcceleration'',
           config_get w ''options.disableHardwareAcceleration''),
        (SetMenuOptionChecked ''options.restartOnConfigChanges'',
           config_get w ''options.restartOnConfigChanges''),
        (SetMenuOptionChecked ''options.autoResetAppCache'',
           config_get w ''options.autoResetAppCache'')]"

text \<open>A sequence of selections of the hide-menu checkbox, each with the \<open>checked\<close> state
  the item has when its handler runs, and the number of dialogs in a trace.\<close>

fun hide_menu_toggles :: "'h env \<Rightarrow> responses \<Rightarrow> bool list \<Rightarrow> 'h world \<Rightarrow> 'h world" where
  "hide_menu_toggles env r [] w = w"
| "hide_menu_toggles env r (b # bs) w =
     hide_menu_toggles env r bs (snd (run_click env HideMenu b r w))"

fun is_dialog :: "effect \<Rightarrow> bool" where
  "is_dialog (ShowMessageBox ty title message) = True"
| "is_dialog e = False"

definition dialogs_shown :: "'h world \<Rightarrow> nat" where
  "dialogs_shown w = length (filter is_dialog (effects w))"

text \<open>
  The state when the handler of a selected item has ended, and the property of a group
  of exclusive items that, once its item number \<open>i\<close> is selected and the group is built
  again, that item is the only one built checked.
\<close>

definition select ::
  "'h env \<Rightarrow> 'h click item \<Rightarrow> bool \<Rightarrow> responses \<Rightarrow> 'h world \<Rightarrow> 'h world" where
  "select env it item_checked r w = snd (menu_item_selected env it item_checked r w)"

definition only_checked_after_select ::
  "'h env \<Rightarrow> ('h env \<Rightarrow> 'h world \<Rightarrow> 'h click item list) \<Rightarrow> nat \<Rightarrow> bool \<Rightarrow> responses
     \<Rightarrow> 'h world \<Rightarrow> bool" where
  "only_checked_after_select env build i item_checked r w =
     (checked_items (build env (select env (build env w ! i) item_checked r w)) =
        [build env (select env (build env w ! i) item_checked r w) ! i])"

subsection \<open>A sample installation\<close>

text \<open>
  Two comparators that are total and transitive. \<open>ci_compare\<close> is the order of ASCII
  strings without regard to case: capitals are mapped to small letters before the
  strings are compared. \<open>code_unit_compare\<close> is the order of the character codes, in
  which every capital comes before every small letter.
\<close>

definition to_lower :: "char \<Rightarrow> char" where
  "to_lower c =
     (if CHR ''A'' \<le> c \<and> c \<le> CHR ''Z'' then char_of (of_char c + (32::nat)) else c)"

definition ci_compare :: "string \<Rightarrow> string \<Rightarrow> int" where
  "ci_compare a b =
     (if map to_lower a < map to_lower b then - 1
      else if map to_lower a = map to_lower b then 0
      else 1)"

definition code_unit_compare :: "string \<Rightarrow> string \<Rightarrow> int" where
  "code_unit_compare a b = (if a < b then - 1 else if a = b then 0 else 1)"

text \<open>
  Four plugins: \<open>a\<close> contributes one action, \<open>d\<close> an empty template, \<open>b\<close> and \<open>c\<close>
  contribute nothing; all but \<open>b\<close> are enabled. Linux, two languages, two starting pages.
\<close>

definition demo_env :: "unit env" where
  "demo_env =
     \<lparr> t = (\<lambda>key. key),
       allPlugins = [(''c'', Some ''Gamma''), (''b'', Some ''Beta''),
                     (''d'', Some ''delta''), (''a'', Some ''alpha'')],
       getAllMenuTemplate = [(''a'', [click_item ''Do it'' ()]), (''d'', [])],
       languageResources = [(''en'', ''English'', ''English''),
                            (''fr'', ''French'', ''Francais'')],
       startingPages = [''Home'', ''Library''],
       localeCompare = ci_compare,
       is_windows = False,
       is_linux = True,
       is_macOS = False,
       platform = ''linux'',
       app_name = ''TuneTrunk'',
       inAppMenuActive = False,
       contributed_click = (\<lambda>h item_checked r w. (item_checked, w)) \<rparr>"

definition demo_options :: "string \<Rightarrow> jsval" where
  "demo_options =
     (\<lambda>path. JUndefined)
       (''options.autoUpdates'' := JBool True,
        ''options.startingPage'' := JStr [],
        ''options.likeButtons'' := JStr [],
        ''options.themes'' := JArr [],
        ''options.tray'' := JBool False,
        ''options.appVisible'' := JBool True,
        ''options.language'' := JStr ''en'',
        ''options.proxy'' := JStr [])"

definition demo_world :: "unit world" where
  "demo_world =
     \<lparr> options = demo_options,
       plugins_enabled = (\<lambda>p. p \<noteq> ''b''),
       hasSingleInstanceLock = True,
       alwaysOnTop = False,
       devToolsOpened = False,
       canGoBack = False,
       canGoForward = False,
       currentURL = ''https://music.example/'',
       clipboard = [],
       applicationMenu = [],
       refreshMenu_pending = 0,
       effects = [] \<rparr>"

definition demo_responses :: responses where
  "demo_responses = \<lparr> filePaths = JArr [], prompt_output = JNull, lock_granted = True \<rparr>"

section \<open>Properties\<close>

lemmas item_shapes = separator_def role_item_def role_accel_item_def submenu_item_def
  click_item_def normal_item_def checkbox_item_def radio_item_def

lemmas config_defs = config_get_def config_set_def config_setMenuOption_def

lemmas demo_defs = demo_env_def demo_world_def demo_options_def demo_responses_def

subsection \<open>The theme submenu\<close>

text \<open>
  C9. Selecting the no-theme radio item sets \<open>options.themes\<close> to the empty list;
  selecting import-css-file when the file dialog answers \<open>["a.css"]\<close> sets it to
  \<open>["a.css"]\<close>; and with a list \<open>xs\<close> configured, the no-theme item is built checked
  exactly when \<open>xs\<close> has length zero.
\<close>

theorem theme_selection:
  "label (theme_submenu env w ! 0) =
     Some (t env ''main.menu.options.submenu.visual-tweaks.submenu.theme.submenu.no-theme'')
   \<and> config_get (snd (menu_item_selected env (theme_submenu env w ! 0) c r w))
         ''options.themes'' = JArr []
   \<and> label (theme_submenu env w ! 2) =
     Some (t env ''main.menu.options.submenu.visual-tweaks.submenu.theme.submenu.import-css-file'')
   \<and> config_get
         (snd (menu_item_selected env (theme_submenu env w ! 2) c
                 (r\<lparr>filePaths := JArr [''a.css'']\<rparr>) w))
         ''options.themes'' = JArr [''a.css'']
   \<and> initially_checked (theme_submenu env (config_set ''options.themes'' (JArr xs) w) ! 0)
       = (length xs = 0)"
  by (simp add: theme_submenu_def item_shapes menu_item_selected_def config_defs
        initially_checked_def)

text \<open>
  C4. The guard of the import-css-file handler is \<open>if (filePaths)\<close>, and an empty array
  is truthy: when the dialog answers with no file path, \<open>options.themes\<close> is written all
  the same, and a configured theme list \<open>["a.css"]\<close> is replaced by the empty list.
\<close>

theorem import_css_empty_result:
  "config_get
     (snd (menu_item_selected env (theme_submenu env w ! 2) c
             (r\<lparr>filePaths := JArr []\<rparr>)
             (config_set ''options.themes'' (JArr [''a.css'']) w)))
     ''options.themes'' = JArr []"
  by (simp add: theme_submenu_def item_shapes menu_item_selected_def config_defs)

subsection \<open>The proxy prompt\<close>

text \<open>Confirming persists the string and sets \<open>item.checked\<close> to whether it is not
  empty; any other output leaves the configuration and negates \<open>item.checked\<close>.\<close>

lemma setProxy_confirm:
  "setProxy c (JStr s) w = (s \<noteq> [], config_setMenuOption ''options.proxy'' (JStr s) w)"
  by (simp add: setProxy_def)

lemma setProxy_cancel:
  "setProxy c JNull w = (\<not> c, w)"
  by (simp add: setProxy_def)

text \<open>
  C3. The set-proxy item is built with type \<open>normal\<close> and without \<open>checked\<close>, so the
  toolkit does not flip it before the handler runs. Cancelling the prompt leaves the
  state as it was and negates \<open>item.checked\<close>: an item that was unchecked before the
  click is checked after it.
\<close>

theorem set_proxy_cancel_flips:
  "type (set_proxy_item env) = Some Normal
   \<and> initially_checked (set_proxy_item env) = False
   \<and> menu_item_selected env (set_proxy_item env) False (r\<lparr>prompt_output := JNull\<rparr>) w
       = (True, w)"
  by (simp add: set_proxy_item_def item_shapes menu_item_selected_def setProxy_def
        initially_checked_def)

subsection \<open>The hide-menu dialog\<close>

lemma hide_menu_click_dialogs:
  "dialogs_shown (snd (run_click env HideMenu b r w)) =
     dialogs_shown w
     + (if b \<and> \<not> truthy (config_get w ''options.hideMenuWarned'') then 1 else 0)"
  by (simp add: dialogs_shown_def config_defs showMessageBox_def Let_def)

lemma hide_menu_click_warned:
  "config_get (snd (run_click env HideMenu b r w)) ''options.hideMenuWarned'' =
     config_get w ''options.hideMenuWarned''"
  by (simp add: config_defs showMessageBox_def Let_def)

text \<open>
  C8, as the code has it. The handler shows the dialog exactly when the item is checked
  and \<open>options.hideMenuWarned\<close> is falsy, and it never writes that flag. Over any sequence
  of selections the flag keeps its value; no dialog is shown when it is set, and one
  dialog is shown for every enabling selection when it is not.
\<close>

theorem hide_menu_dialog_count:
  "dialogs_shown (hide_menu_toggles env r bs w) =
     dialogs_shown w
     + (if truthy (config_get w ''options.hideMenuWarned'') then 0 else count_list bs True)
   \<and> config_get (hide_menu_toggles env r bs w) ''options.hideMenuWarned'' =
     config_get w ''options.hideMenuWarned''"
proof (induction bs arbitrary: w)
  case Nil
  show ?case by simp
next
  case (Cons b bs)
  let ?w1 = "snd (run_click env HideMenu b r w)"
  have step: "hide_menu_toggles env r (b # bs) w = hide_menu_toggles env r bs ?w1"
    by simp
  show ?case
    unfolding step
    using Cons.IH [of ?w1] hide_menu_click_dialogs [of env b r w]
      hide_menu_click_warned [of env b r w]
    by (simp del: run_click.simps)
qed

text \<open>
  C8 as stated fails: with the flag unset, enabling hide-menu, disabling it and enabling
  it again shows the dialog twice.
\<close>

theorem hide_menu_dialog_twice:
  "config_get demo_world ''options.hideMenuWarned'' = JUndefined
   \<and> click (hd (hide_menu_items demo_env demo_world)) = Some HideMenu
   \<and> dialogs_shown
         (hide_menu_toggles demo_env demo_responses [True, False, True] demo_world) = 2"
  by (simp add: demo_defs hide_menu_items_def item_shapes dialogs_shown_def config_defs
        showMessageBox_def Let_def)

subsection \<open>The built tree and the pending rebuilds\<close>

lemma flatten_self: "it \<in> set (flatten it)"
  by (cases it) simp

lemma flatten_all_member:
  "x \<in> set xs \<Longrightarrow> y \<in> set (flatten x) \<Longrightarrow> y \<in> set (flatten_all xs)"
  by (auto simp: flatten_all_def)

lemma flatten_submenu:
  "set (flatten (submenu_item l xs)) = insert (submenu_item l xs) (set (flatten_all xs))"
  by (simp add: submenu_item_def flatten_all_def)

lemma options_item_in_menu:
  assumes "it \<in> set (options_submenu env w)"
  shows "it \<in> set (flatten_all (mainMenuTemplate env w))"
proof -
  from assms have "it \<in> set (flatten_all (options_submenu env w))"
    using flatten_self by (rule flatten_all_member)
  then have "it \<in> set (flatten (submenu_item (t env ''main.menu.options.label'')
                                  (options_submenu env w)))"
    by (simp add: flatten_submenu)
  moreover have "submenu_item (t env ''main.menu.options.label'') (options_submenu env w)
                   \<in> set (mainMenuTemplate env w)"
    by (simp add: mainMenuTemplate_def)
  ultimately show ?thesis by (rule flatten_all_member [rotated])
qed

lemma plugins_group_mainMenuTemplate:
  "plugins_group (mainMenuTemplate env w) = pluginMenus env w"
  by (simp add: plugins_group_def mainMenuTemplate_def submenu_item_def)

text \<open>The tree depends on the state through the configuration and the enabled flags
  only.\<close>

lemma mainMenuTemplate_cong:
  assumes "options w1 = options w2" and "plugins_enabled w1 = plugins_enabled w2"
  shows "mainMenuTemplate env w1 = mainMenuTemplate env w2"
proof -
  have c: "pluginEnabledMenu pid l hs rf w1 = pluginEnabledMenu pid l hs rf w2" for pid l hs rf
    using assms(2) by (simp add: pluginEnabledMenu_def plugins_isEnabled_def)
  have e: "plugins_isEnabled w1 = plugins_isEnabled w2"
    using assms(2) by (simp add: plugins_isEnabled_def fun_eq_iff)
  have m: "menuResult env w1 = menuResult env w2"
    by (simp add: menuResult_def c e case_prod_beta)
  have "plugin_entry env w1 pid = plugin_entry env w2 pid" for pid
    by (simp add: plugin_entry_def m c split: option.split)
  then have p: "pluginMenus env w1 = pluginMenus env w2"
    by (simp add: pluginMenus_def)
  have o: "options_submenu env w1 = options_submenu env w2"
    using assms(1)
    by (simp add: options_submenu_def starting_page_submenu_def visual_tweaks_submenu_def
          like_buttons_submenu_def theme_submenu_def always_on_top_item_def
          hide_menu_items_def start_at_login_items_def tray_submenu_def language_submenu_def
          advanced_options_submenu_def option_checkbox_def config_get_def)
  show ?thesis by (simp add: mainMenuTemplate_def p o)
qed

lemma refreshMenu_fields:
  "options (refreshMenu env w) = options w"
  "plugins_enabled (refreshMenu env w) = plugins_enabled w"
  "refreshMenu_pending (refreshMenu env w) = refreshMenu_pending w"
  "applicationMenu (refreshMenu env w) =
     (if platform env = ''darwin''
      then darwin_app_menu env # mainMenuTemplate env w
      else mainMenuTemplate env w)"
  "effects (refreshMenu env w) =
     effects w @ (if inAppMenuActive env then [Send ''refresh-in-app-menu''] else [])"
  by (simp_all add: refreshMenu_def setApplicationMenu_def Let_def)

lemma complete_refreshMenu_fields:
  "options (complete_refreshMenu n env w) = options w
   \<and> plugins_enabled (complete_refreshMenu n env w) = plugins_enabled w
   \<and> refreshMenu_pending (complete_refreshMenu n env w) = refreshMenu_pending w
   \<and> effects (complete_refreshMenu n env w) =
       effects w
       @ concat (replicate n (if inAppMenuActive env then [Send ''refresh-in-app-menu''] else []))"
proof (induction n arbitrary: w)
  case 0
  show ?case by simp
next
  case (Suc n)
  show ?case
    using Suc.IH [of "refreshMenu env w"] by (simp add: refreshMenu_fields)
qed

lemma complete_refreshMenu_menu:
  "applicationMenu (complete_refreshMenu (Suc n) env w) =
     (if platform env = ''darwin''
      then darwin_app_menu env # mainMenuTemplate env w
      else mainMenuTemplate env w)"
proof (induction n arbitrary: w)
  case 0
  show ?case by (simp add: refreshMenu_fields)
next
  case (Suc n)
  have "mainMenuTemplate env (refreshMenu env w) = mainMenuTemplate env w"
    by (rule mainMenuTemplate_cong) (simp_all add: refreshMenu_fields)
  with Suc.IH [of "refreshMenu env w"] show ?case by simp
qed

lemma settle_fields:
  "options (settle env w) = options w"
  "plugins_enabled (settle env w) = plugins_enabled w"
  "refreshMenu_pending (settle env w) = 0"
  "effects (settle env w) =
     effects w
     @ concat (replicate (refreshMenu_pending w)
                 (if inAppMenuActive env then [Send ''refresh-in-app-menu''] else []))"
  by (simp_all add: settle_def complete_refreshMenu_fields)

lemma settle_menu:
  assumes "refreshMenu_pending w = Suc n"
  shows "applicationMenu (settle env w) =
           (if platform env = ''darwin''
            then darwin_app_menu env # mainMenuTemplate env w
            else mainMenuTemplate env w)"
proof -
  have "mainMenuTemplate env (w\<lparr>refreshMenu_pending := 0\<rparr>) = mainMenuTemplate env w"
    by (rule mainMenuTemplate_cong) simp_all
  then show ?thesis
    by (simp add: settle_def assms complete_refreshMenu_menu del: complete_refreshMenu.simps)
qed

subsection \<open>The Plugins group\<close>

lemma find_map_entries:
  "find (\<lambda>it. fst it = k0) (map (\<lambda>(k, v). (k, f k v)) xs) =
     map_option (\<lambda>v. (k0, f k0 v)) (map_of xs k0)"
  by (induction xs) auto

lemma find_menuResult:
  "find (\<lambda>it. fst it = pid) (menuResult env w) =
     map_option
       (\<lambda>template.
          (pid,
           if \<not> plugins_isEnabled w pid
           then pluginEnabledMenu pid (pluginLabel env pid) True (Some InnerRefreshMenu) w
           else submenu_item (pluginLabel env pid)
              (pluginEnabledMenu pid (t env ''main.menu.plugins.enabled'') True
                   (Some InnerRefreshMenu) w
               # separator
               # map (map_item Contributed) template)))
       (map_of (getAllMenuTemplate env) pid)"
proof -
  have "menuResult env w =
          map (\<lambda>(k, v). (k,
                 if \<not> plugins_isEnabled w k
                 then pluginEnabledMenu k (pluginLabel env k) True (Some InnerRefreshMenu) w
                 else submenu_item (pluginLabel env k)
                    (pluginEnabledMenu k (t env ''main.menu.plugins.enabled'') True
                         (Some InnerRefreshMenu) w
                     # separator
                     # map (map_item Contributed) v)))
              (getAllMenuTemplate env)"
    unfolding menuResult_def by (rule map_cong) (auto split: prod.split)
  then show ?thesis
    by (simp only: find_map_entries)
qed



lemma mset_sort_insert: "mset (sort_insert cmp x xs) = add_mset x (mset xs)"
  by (induction xs) auto

lemma mset_array_sort: "mset (array_sort cmp xs) = mset xs"
  by (induction xs) (auto simp: mset_sort_insert)








lemma code_unit_compare_le: "code_unit_compare a b \<le> 0 \<longleftrightarrow> a \<le> b"
  by (auto simp: code_unit_compare_def)

lemma code_unit_compare_total_transitive:
  "code_unit_compare a b \<le> 0 \<or> code_unit_compare b a \<le> 0"
  "code_unit_compare a b \<le> 0 \<Longrightarrow> code_unit_compare b c \<le> 0 \<Longrightarrow> code_unit_compare a c \<le> 0"
  by (auto simp: code_unit_compare_le)


lemma plugin_entry_checkbox:
  "\<exists>cb. entry_checkbox (plugin_entry env w pid) = Some cb
        \<and> type cb = Some Checkbox
        \<and> click cb = Some (PluginEnabledClick pid True (Some InnerRefreshMenu))"
  by (simp add: plugin_entry_def find_menuResult pluginEnabledMenu_def
        entry_checkbox_def item_shapes split: option.split)

lemma plugin_entry_checkbox_checked:
  "\<exists>cb. entry_checkbox (plugin_entry env w pid) = Some cb
        \<and> checkbox_plugin cb = Some pid
        \<and> checked cb = JBool (plugins_isEnabled w pid)"
  by (simp add: plugin_entry_def find_menuResult pluginEnabledMenu_def
        entry_checkbox_def checkbox_plugin_def item_shapes split: option.split)

lemma plugin_checkbox_selected:
  assumes "type cb = Some Checkbox"
      and "click cb = Some (PluginEnabledClick pid True (Some InnerRefreshMenu))"
  shows "select env cb c r w0 =
           refreshMenu_started
             (if \<not> c then plugins_enable pid w0 else plugins_disable pid w0)"
  using assms by (simp add: select_def menu_item_selected_def Let_def)

lemma in_sorted_registry:
  "pid \<in> set (array_sort cmp (availablePlugins env)) \<longleftrightarrow> pid \<in> set (availablePlugins env)"
  using mset_array_sort [of cmp "availablePlugins env"] by (metis set_mset_mset)

text \<open>
  C10. Every entry of the Plugins group of the built tree has a plugin checkbox, the
  entry itself or the first child of the wrapper, whose handler was created with
  \<open>hasSubmenu = true\<close> and the rebuild callback. Selecting it enables or disables the
  plugin and starts one call of \<open>refreshMenu\<close>; once that call has completed, the
  installed application menu is the whole menu built from the new state, and in it the
  checkbox of the plugin shows the new state.
\<close>

theorem plugin_checkbox_rebuilds:
  assumes "e \<in> set (plugins_group (mainMenuTemplate env w))"
  shows "\<exists>cb pid. entry_checkbox e = Some cb
           \<and> type cb = Some Checkbox
           \<and> click cb = Some (PluginEnabledClick pid True (Some InnerRefreshMenu))
           \<and> (\<forall>c r w0.
                 refreshMenu_pending (select env cb c r w0) = Suc (refreshMenu_pending w0)
                 \<and> refreshMenu_pending (settle env (select env cb c r w0)) = 0
                 \<and> plugins_isEnabled (settle env (select env cb c r w0)) pid = (\<not> c)
                 \<and> applicationMenu (settle env (select env cb c r w0)) =
                     (if platform env = ''darwin''
                      then darwin_app_menu env
                           # mainMenuTemplate env
                               (if \<not> c then plugins_enable pid w0 else plugins_disable pid w0)
                      else mainMenuTemplate env
                             (if \<not> c then plugins_enable pid w0 else plugins_disable pid w0))
                 \<and> (\<exists>e1 \<in> set (plugins_group
                                  (mainMenuTemplate env
                                     (if \<not> c then plugins_enable pid w0
                                      else plugins_disable pid w0))).
                       \<exists>cb1. entry_checkbox e1 = Some cb1
                         \<and> checkbox_plugin cb1 = Some pid
                         \<and> checked cb1 = JBool (\<not> c)))"
proof -
  let ?ids = "array_sort (\<lambda>a b. localeCompare env (pluginLabel env a) (pluginLabel env b))
                (availablePlugins env)"
  from assms obtain pid where pid: "pid \<in> set ?ids" and e: "e = plugin_entry env w pid"
    by (auto simp: plugins_group_mainMenuTemplate pluginMenus_def)
  from plugin_entry_checkbox [of env w pid] obtain cb where
    cb: "entry_checkbox e = Some cb" "type cb = Some Checkbox"
        "click cb = Some (PluginEnabledClick pid True (Some InnerRefreshMenu))"
    unfolding e by blast
  have after: "refreshMenu_pending (select env cb c r w0) = Suc (refreshMenu_pending w0)
      \<and> refreshMenu_pending (settle env (select env cb c r w0)) = 0
      \<and> plugins_isEnabled (settle env (select env cb c r w0)) pid = (\<not> c)
      \<and> applicationMenu (settle env (select env cb c r w0)) =
          (if platform env = ''darwin''
           then darwin_app_menu env
                # mainMenuTemplate env
                    (if \<not> c then plugins_enable pid w0 else plugins_disable pid w0)
           else mainMenuTemplate env
                  (if \<not> c then plugins_enable pid w0 else plugins_disable pid w0))
      \<and> (\<exists>e1 \<in> set (plugins_group
                       (mainMenuTemplate env
                          (if \<not> c then plugins_enable pid w0 else plugins_disable pid w0))).
            \<exists>cb1. entry_checkbox e1 = Some cb1
              \<and> checkbox_plugin cb1 = Some pid
              \<and> checked cb1 = JBool (\<not> c))"
    for c r w0
  proof -
    let ?W = "if \<not> c then plugins_enable pid w0 else plugins_disable pid w0"
    have sel: "select env cb c r w0 = refreshMenu_started ?W"
      using cb(2,3) by (rule plugin_checkbox_selected)
    have pending: "refreshMenu_pending (refreshMenu_started ?W) = Suc (refreshMenu_pending w0)"
      by (simp add: refreshMenu_started_def plugins_enable_def plugins_disable_def)
    have enabled: "plugins_isEnabled ?W pid = (\<not> c)"
      by (simp add: plugins_isEnabled_def plugins_enable_def plugins_disable_def)
    have same: "mainMenuTemplate env (refreshMenu_started ?W) = mainMenuTemplate env ?W"
      by (rule mainMenuTemplate_cong) (simp_all add: refreshMenu_started_def)
    have menu: "applicationMenu (settle env (refreshMenu_started ?W)) =
                  (if platform env = ''darwin''
                   then darwin_app_menu env # mainMenuTemplate env ?W
                   else mainMenuTemplate env ?W)"
      using settle_menu [OF pending, of env] same by simp
    have state: "plugins_isEnabled (settle env (refreshMenu_started ?W)) pid = (\<not> c)"
      using enabled
      by (simp add: plugins_isEnabled_def settle_fields refreshMenu_started_def)
    from plugin_entry_checkbox_checked [of env ?W pid] obtain cb1 where
      cb1: "entry_checkbox (plugin_entry env ?W pid) = Some cb1"
           "checkbox_plugin cb1 = Some pid"
           "checked cb1 = JBool (plugins_isEnabled ?W pid)"
      by blast
    have "plugin_entry env ?W pid \<in> set (plugins_group (mainMenuTemplate env ?W))"
      using pid by (simp add: plugins_group_mainMenuTemplate pluginMenus_def)
    with cb1 enabled
    have shown: "\<exists>e1 \<in> set (plugins_group (mainMenuTemplate env ?W)).
                   \<exists>cb1. entry_checkbox e1 = Some cb1
                     \<and> checkbox_plugin cb1 = Some pid
                     \<and> checked cb1 = JBool (\<not> c)"
      by (intro bexI [of _ "plugin_entry env ?W pid"] exI [of _ cb1]) simp_all
    from pending state menu shown show ?thesis
      unfolding sel by (simp only: settle_fields)
  qed
  with cb show ?thesis by blast
qed

theorem plugin_checkbox_demo:
  "plugins_group (mainMenuTemplate demo_env demo_world) ! 1
     \<in> set (plugins_group (mainMenuTemplate demo_env demo_world))
   \<and> (\<exists>cb. entry_checkbox (plugins_group (mainMenuTemplate demo_env demo_world) ! 1) = Some cb
        \<and> type cb = Some Checkbox
        \<and> click cb = Some (PluginEnabledClick ''b'' True (Some InnerRefreshMenu))
        \<and> refreshMenu_pending (select demo_env cb False demo_responses demo_world) = 1
        \<and> plugins_isEnabled (settle demo_env (select demo_env cb False demo_responses demo_world))
             ''b''
        \<and> applicationMenu (settle demo_env (select demo_env cb False demo_responses demo_world)) =
             mainMenuTemplate demo_env (plugins_enable ''b'' demo_world))"
proof -
  let ?e = "plugins_group (mainMenuTemplate demo_env demo_world) ! 1"
  have h: "?e \<in> set (plugins_group (mainMenuTemplate demo_env demo_world))"
    by code_simp
  have b: "entry_plugin ?e = Some ''b''"
    by code_simp
  have p: "platform demo_env \<noteq> ''darwin''" "refreshMenu_pending demo_world = 0"
    by (simp_all add: demo_env_def demo_world_def)
  from plugin_checkbox_rebuilds [OF h] obtain cb pid where
    cb: "entry_checkbox ?e = Some cb" "type cb = Some Checkbox"
        "click cb = Some (PluginEnabledClick pid True (Some InnerRefreshMenu))"
    and after: "\<And>c r w0.
       refreshMenu_pending (select demo_env cb c r w0) = Suc (refreshMenu_pending w0)
       \<and> refreshMenu_pending (settle demo_env (select demo_env cb c r w0)) = 0
       \<and> plugins_isEnabled (settle demo_env (select demo_env cb c r w0)) pid = (\<not> c)
       \<and> applicationMenu (settle demo_env (select demo_env cb c r w0)) =
           (if platform demo_env = ''darwin''
            then darwin_app_menu demo_env
                 # mainMenuTemplate demo_env
                     (if \<not> c then plugins_enable pid w0 else plugins_disable pid w0)
            else mainMenuTemplate demo_env
                   (if \<not> c then plugins_enable pid w0 else plugins_disable pid w0))"
    by blast
  from b cb have pid: "pid = ''b''"
    by (simp add: entry_plugin_def checkbox_plugin_def)
  from after [of False demo_responses demo_world] cb p h show ?thesis
    unfolding pid by (intro conjI exI [of _ cb]) simp_all
qed

subsection \<open>The language submenu\<close>

lemma language_checked:
  "map initially_checked (language_submenu env w) =
     map (\<lambda>lang. config_get w ''options.language'' = JStr lang) (availableLanguages env)"
  by (simp add: language_submenu_def availableLanguages_def strict_eq_str_def
        initially_checked_def item_shapes comp_def case_prod_beta)

lemma language_submenu_in_menu:
  "submenu_item (t env ''main.menu.options.submenu.language.label'') (language_submenu env w)
     \<in> set (flatten_all (mainMenuTemplate env w))"
  by (rule options_item_in_menu) (simp add: options_submenu_def)

lemma select_language_state:
  "snd (run_click env (SelectLanguage lang) c r w) =
     w\<lparr>options := (options w)(''options.language'' := JStr lang),
       refreshMenu_pending := Suc (refreshMenu_pending w),
       effects := effects w @
         [RestartPromptMarked, SetLanguage lang,
          ShowMessageBox None
            (t env ''main.menu.options.submenu.language.dialog.title'')
            (t env ''main.menu.options.submenu.language.dialog.message'')]\<rparr>"
  by (simp add: config_defs refreshMenu_started_def showMessageBox_def Let_def)

text \<open>
  C7, as the code has it. The language submenu of the built tree has one item for each
  language bundle, of type \<open>checkbox\<close>, built checked when \<open>options.language\<close> is that
  language. Selecting a language persists the choice, calls \<open>setLanguage\<close> and shows the
  confirmation dialog, in this order, and starts one call of \<open>refreshMenu\<close>, which
  completes after the handler has ended: then the installed application menu is the
  whole menu built from the new configuration, the window has been told to refresh its
  own menu when the in-app menu was active at launch, and the selected language is the
  one checked item of the submenu.
\<close>

theorem language_menu:
  "submenu_item (t env ''main.menu.options.submenu.language.label'') (language_submenu env w)
     \<in> set (flatten_all (mainMenuTemplate env w))
   \<and> map type (language_submenu env w) = map (\<lambda>lang. Some Checkbox) (availableLanguages env)
   \<and> map click (language_submenu env w) =
       map (\<lambda>lang. Some (SelectLanguage lang)) (availableLanguages env)
   \<and> map checked (language_submenu env w) =
       map (\<lambda>lang. JBool (config_get w ''options.language'' = JStr lang))
         (availableLanguages env)
   \<and> config_get (snd (run_click env (SelectLanguage lang) c r w)) ''options.language''
       = JStr lang
   \<and> effects (snd (run_click env (SelectLanguage lang) c r w)) =
       effects w
       @ [RestartPromptMarked, SetLanguage lang,
          ShowMessageBox None
            (t env ''main.menu.options.submenu.language.dialog.title'')
            (t env ''main.menu.options.submenu.language.dialog.message'')]
   \<and> refreshMenu_pending (snd (run_click env (SelectLanguage lang) c r w)) =
       Suc (refreshMenu_pending w)
   \<and> applicationMenu (settle env (snd (run_click env (SelectLanguage lang) c r w))) =
       (if platform env = ''darwin''
        then darwin_app_menu env
             # mainMenuTemplate env (config_set ''options.language'' (JStr lang) w)
        else mainMenuTemplate env (config_set ''options.language'' (JStr lang) w))
   \<and> effects (settle env (snd (run_click env (SelectLanguage lang) c r w))) =
       effects (snd (run_click env (SelectLanguage lang) c r w))
       @ concat (replicate (Suc (refreshMenu_pending w))
                   (if inAppMenuActive env then [Send ''refresh-in-app-menu''] else []))
   \<and> map initially_checked
         (language_submenu env (settle env (snd (run_click env (SelectLanguage lang) c r w)))) =
       map (\<lambda>l. l = lang) (availableLanguages env)"
proof -
  let ?w1 = "snd (run_click env (SelectLanguage lang) c r w)"
  note st = select_language_state [of env lang c r w]
  have pending: "refreshMenu_pending ?w1 = Suc (refreshMenu_pending w)"
    unfolding st by simp
  have cfg: "config_get ?w1 ''options.language'' = JStr lang"
    unfolding st by (simp add: config_get_def)
  have eff: "effects ?w1 = effects w
       @ [RestartPromptMarked, SetLanguage lang,
          ShowMessageBox None
            (t env ''main.menu.options.submenu.language.dialog.title'')
            (t env ''main.menu.options.submenu.language.dialog.message'')]"
    unfolding st by simp
  have same: "mainMenuTemplate env ?w1 =
                mainMenuTemplate env (config_set ''options.language'' (JStr lang) w)"
    unfolding st by (rule mainMenuTemplate_cong) (simp_all add: config_set_def)
  have menu: "applicationMenu (settle env ?w1) =
       (if platform env = ''darwin''
        then darwin_app_menu env
             # mainMenuTemplate env (config_set ''options.language'' (JStr lang) w)
        else mainMenuTemplate env (config_set ''options.language'' (JStr lang) w))"
    using settle_menu [OF pending, of env] same by simp
  have sends: "effects (settle env ?w1) =
       effects ?w1
       @ concat (replicate (Suc (refreshMenu_pending w))
                   (if inAppMenuActive env then [Send ''refresh-in-app-menu''] else []))"
    by (simp only: settle_fields pending)
  have "config_get (settle env ?w1) ''options.language'' = JStr lang"
    using cfg by (simp add: config_get_def settle_fields)
  then have shown: "map initially_checked (language_submenu env (settle env ?w1)) =
                      map (\<lambda>l. l = lang) (availableLanguages env)"
    by (auto simp: language_checked)
  have items:
    "map type (language_submenu env w) = map (\<lambda>lang. Some Checkbox) (availableLanguages env)"
    "map click (language_submenu env w) =
       map (\<lambda>lang. Some (SelectLanguage lang)) (availableLanguages env)"
    "map checked (language_submenu env w) =
       map (\<lambda>lang. JBool (config_get w ''options.language'' = JStr lang))
         (availableLanguages env)"
    by (simp_all add: language_submenu_def availableLanguages_def item_shapes
          strict_eq_str_def case_prod_beta comp_def)
  from language_submenu_in_menu items cfg eff pending menu sends shown show ?thesis
    by (intro conjI)
qed

text \<open>C7 as stated fails: the items of the language submenu are not radio items.\<close>

theorem language_items_are_checkboxes:
  "map type (language_submenu demo_env demo_world) = [Some Checkbox, Some Checkbox]
   \<and> radio_group (language_submenu demo_env demo_world) = []"
  by (simp add: language_submenu_def demo_defs item_shapes radio_group_def)

subsection \<open>The groups of exclusive items\<close>

lemma filter_one_hot:
  assumes "distinct vals" and "i < length vals" and "length items = length vals"
      and "\<And>j. j < length vals \<Longrightarrow> P (items ! j) \<longleftrightarrow> vals ! j = vals ! i"
  shows "filter P items = [items ! i]"
proof -
  have i: "i < length items" using assms by simp
  have iff: "P (items ! j) \<longleftrightarrow> j = i" if "j < length items" for j
    using assms that by (simp add: nth_eq_iff_index_eq)
  have before: "filter P (take i items) = []"
    using i iff by (auto simp: filter_empty_conv in_set_conv_nth)
  have after: "filter P (drop (Suc i) items) = []"
    using i iff by (auto simp: filter_empty_conv in_set_conv_nth)
  have "items = take i items @ items ! i # drop (Suc i) items"
    using i by (rule id_take_nth_drop)
  then have "filter P items = filter P (take i items @ items ! i # drop (Suc i) items)"
    by simp
  also have "\<dots> = [items ! i]"
    using before after iff [OF i] by simp
  finally show ?thesis .
qed

lemma starting_page_nth:
  assumes "i < length ([] # startingPages env)"
  shows "starting_page_submenu env w ! i =
           radio_item
             (if i = 0 then t env ''main.menu.options.submenu.starting-page.unset''
              else ([] # startingPages env) ! i)
             (JBool (config_get w ''options.startingPage'' = JStr (([] # startingPages env) ! i)))
             (ConfigSet ''options.startingPage'' (JStr (([] # startingPages env) ! i)))"
  using assms by (cases i) (simp_all add: starting_page_submenu_def strict_eq_str_def)

lemma starting_page_checked:
  "map initially_checked (starting_page_submenu env w) =
     map (\<lambda>name. config_get w ''options.startingPage'' = JStr name) ([] # startingPages env)"
  by (simp add: starting_page_submenu_def strict_eq_str_def initially_checked_def item_shapes
        comp_def)

lemma starting_page_select:
  assumes d: "distinct ([] # startingPages env)"
      and i: "i < length (starting_page_submenu env w)"
  shows "checked_items
           (starting_page_submenu env (select env (starting_page_submenu env w ! i) c r w))
         = [starting_page_submenu env (select env (starting_page_submenu env w ! i) c r w) ! i]
         \<and> config_get (select env (starting_page_submenu env w ! i) c r w)
               ''options.startingPage'' = JStr (([] # startingPages env) ! i)"
proof -
  let ?vals = "[] # startingPages env"
  let ?w1 = "select env (starting_page_submenu env w ! i) c r w"
  have i': "i < length ?vals" using i by (simp add: starting_page_submenu_def)
  have cfg: "config_get ?w1 ''options.startingPage'' = JStr (?vals ! i)"
    by (simp add: select_def menu_item_selected_def starting_page_nth [OF i'] item_shapes
          config_defs)
  have len: "length (starting_page_submenu env ?w1) = length ?vals"
    by (simp add: starting_page_submenu_def)
  have "filter initially_checked (starting_page_submenu env ?w1)
          = [starting_page_submenu env ?w1 ! i]"
  proof (rule filter_one_hot [OF d i' len])
    fix j assume j: "j < length ?vals"
    show "initially_checked (starting_page_submenu env ?w1 ! j) \<longleftrightarrow> ?vals ! j = ?vals ! i"
      unfolding starting_page_nth [OF j] cfg
      by (auto simp: initially_checked_def item_shapes)
  qed
  with cfg show ?thesis by (simp add: checked_items_def)
qed

lemma like_buttons_checked:
  "map initially_checked (like_buttons_submenu env w) =
     [\<not> truthy (config_get w ''options.likeButtons''),
      config_get w ''options.likeButtons'' = JStr ''force'',
      config_get w ''options.likeButtons'' = JStr ''hide'']"
  by (simp add: like_buttons_submenu_def strict_eq_str_def js_not_def initially_checked_def
        item_shapes)

lemma like_buttons_select:
  assumes "i < length (like_buttons_submenu env w)"
  shows "checked_items
           (like_buttons_submenu env (select env (like_buttons_submenu env w ! i) c r w))
         = [like_buttons_submenu env (select env (like_buttons_submenu env w ! i) c r w) ! i]
         \<and> config_get (select env (like_buttons_submenu env w ! i) c r w)
               ''options.likeButtons'' = JStr ([[], ''force'', ''hide''] ! i)"
proof -
  from assms have "i < 3" by (simp add: like_buttons_submenu_def)
  then consider "i = 0" | "i = 1" | "i = 2" by arith
  then show ?thesis
    by cases
       (simp_all add: like_buttons_submenu_def select_def menu_item_selected_def item_shapes
          config_defs checked_items_def initially_checked_def strict_eq_str_def js_not_def)
qed

lemma tray_radio_group:
  "radio_group (tray_submenu env w) = take 3 (tray_submenu env w)"
  by (simp add: tray_submenu_def radio_group_def item_shapes option_checkbox_def)

lemma tray_checked:
  "map initially_checked (radio_group (tray_submenu env w)) =
     [\<not> truthy (config_get w ''options.tray''),
      truthy (config_get w ''options.tray'') \<and> truthy (config_get w ''options.appVisible''),
      truthy (config_get w ''options.tray'') \<and> \<not> truthy (config_get w ''options.appVisible'')]"
  by (simp add: tray_radio_group)
     (simp add: tray_submenu_def js_not_def js_and_def initially_checked_def item_shapes)

lemma tray_exactly_one:
  "length (checked_items (radio_group (tray_submenu env w))) = 1"
proof -
  have "length (checked_items (radio_group (tray_submenu env w))) =
          length (filter id (map initially_checked (radio_group (tray_submenu env w))))"
    by (simp add: checked_items_def filter_map comp_def)
  also have "\<dots> = 1"
    unfolding tray_checked by auto
  finally show ?thesis .
qed

lemma tray_select:
  assumes "i < length (radio_group (tray_submenu env w))"
  shows "checked_items
           (radio_group
              (tray_submenu env (select env (radio_group (tray_submenu env w) ! i) c r w)))
         = [radio_group
              (tray_submenu env (select env (radio_group (tray_submenu env w) ! i) c r w)) ! i]
         \<and> config_get (select env (radio_group (tray_submenu env w) ! i) c r w)
               ''options.tray'' = JBool ([False, True, True] ! i)
         \<and> config_get (select env (radio_group (tray_submenu env w) ! i) c r w)
               ''options.appVisible'' = JBool ([True, True, False] ! i)"
proof -
  from assms have "i < 3" unfolding tray_radio_group by (simp add: tray_submenu_def)
  then consider "i = 0" | "i = 1" | "i = 2" by arith
  then show ?thesis
    unfolding tray_radio_group
    by cases
       (simp_all add: tray_submenu_def select_def menu_item_selected_def item_shapes
          config_defs checked_items_def initially_checked_def js_and_def js_not_def)
qed

lemma language_nth:
  assumes "i < length (availableLanguages env)"
  shows "type (language_submenu env w ! i) = Some Checkbox
         \<and> checked (language_submenu env w ! i) =
             JBool (config_get w ''options.language'' = JStr (availableLanguages env ! i))
         \<and> click (language_submenu env w ! i) = Some (SelectLanguage (availableLanguages env ! i))"
  using assms
  by (simp add: language_submenu_def availableLanguages_def item_shapes strict_eq_str_def
        case_prod_beta)

lemma select_language_config:
  "config_get (snd (run_click env (SelectLanguage lang) c r w)) ''options.language'' = JStr lang"
  by (simp add: config_defs refreshMenu_started_def showMessageBox_def Let_def)

lemma language_select:
  assumes d: "distinct (availableLanguages env)"
      and i: "i < length (language_submenu env w)"
  shows "checked_items
           (language_submenu env (select env (language_submenu env w ! i) c r w))
         = [language_submenu env (select env (language_submenu env w ! i) c r w) ! i]
         \<and> config_get (select env (language_submenu env w ! i) c r w)
               ''options.language'' = JStr (availableLanguages env ! i)"
proof -
  let ?vals = "availableLanguages env"
  let ?w1 = "select env (language_submenu env w ! i) c r w"
  have i': "i < length ?vals"
    using i by (simp add: language_submenu_def availableLanguages_def)
  have cfg: "config_get ?w1 ''options.language'' = JStr (?vals ! i)"
    using language_nth [OF i', of w]
    by (simp add: select_def menu_item_selected_def select_language_config
          del: run_click.simps)
  have len: "length (language_submenu env ?w1) = length ?vals"
    by (simp add: language_submenu_def availableLanguages_def)
  have "filter initially_checked (language_submenu env ?w1) = [language_submenu env ?w1 ! i]"
  proof (rule filter_one_hot [OF d i' len])
    fix j assume j: "j < length ?vals"
    show "initially_checked (language_submenu env ?w1 ! j) \<longleftrightarrow> ?vals ! j = ?vals ! i"
      using language_nth [OF j, of ?w1] cfg by (auto simp: initially_checked_def)
  qed
  with cfg show ?thesis by (simp add: checked_items_def)
qed

lemma theme_radio_group:
  "radio_group (theme_submenu env w) = [theme_submenu env w ! 0]"
  by (simp add: theme_submenu_def radio_group_def item_shapes)

lemma theme_checked:
  "checked_items (radio_group (theme_submenu env w)) =
     (if truthy (length_is_zero (config_get w ''options.themes''))
      then [theme_submenu env w ! 0] else [])"
  by (simp add: theme_radio_group checked_items_def)
     (simp add: theme_submenu_def initially_checked_def item_shapes)

lemma theme_select:
  "checked_items
     (radio_group (theme_submenu env (select env (theme_submenu env w ! 0) c r w)))
   = [theme_submenu env (select env (theme_submenu env w ! 0) c r w) ! 0]
   \<and> config_get (select env (theme_submenu env w ! 0) c r w) ''options.themes'' = JArr []"
  by (simp add: theme_checked)
     (simp add: theme_submenu_def select_def menu_item_selected_def item_shapes config_defs)

lemma flatten_closed:
  "y \<in> set (flatten g) \<Longrightarrow> submenu y = Some xs \<Longrightarrow> x \<in> set xs \<Longrightarrow> x \<in> set (flatten g)"
proof (induction g rule: flatten.induct)
  case (1 l ty c h sub r a)
  from "1.prems"(1) consider "y = Item l ty c h sub r a"
    | zs z where "sub = Some zs" "z \<in> set zs" "y \<in> set (flatten z)"
    by (cases sub) auto
  then show ?case
  proof cases
    case 1
    with "1.prems"(2,3) flatten_self [of x] show ?thesis by auto
  next
    case 2
    with "1.IH" [OF 2(1,2,3) "1.prems"(2,3)] show ?thesis by auto
  qed
qed

lemma nested_item_in_menu:
  assumes "submenu_item l xs \<in> set (flatten_all tree)" and "x \<in> set xs"
  shows "x \<in> set (flatten_all tree)"
proof -
  from assms(1) obtain g where g: "g \<in> set tree" "submenu_item l xs \<in> set (flatten g)"
    by (auto simp: flatten_all_def)
  have "submenu (submenu_item l xs) = Some xs"
    by (simp add: submenu_item_def)
  with g(2) have "x \<in> set (flatten g)"
    using assms(2) by (rule flatten_closed)
  with g(1) show ?thesis
    by (auto simp: flatten_all_def)
qed

lemma groups_in_menu:
  "submenu_item (t env ''main.menu.options.submenu.starting-page.label'')
     (starting_page_submenu env w) \<in> set (flatten_all (mainMenuTemplate env w))"
  "submenu_item (t env ''main.menu.options.submenu.visual-tweaks.submenu.like-buttons.label'')
     (like_buttons_submenu env w) \<in> set (flatten_all (mainMenuTemplate env w))"
  "submenu_item (t env ''main.menu.options.submenu.visual-tweaks.submenu.theme.label'')
     (theme_submenu env w) \<in> set (flatten_all (mainMenuTemplate env w))"
  "submenu_item (t env ''main.menu.options.submenu.tray.label'')
     (tray_submenu env w) \<in> set (flatten_all (mainMenuTemplate env w))"
proof -
  show "submenu_item (t env ''main.menu.options.submenu.starting-page.label'')
     (starting_page_submenu env w) \<in> set (flatten_all (mainMenuTemplate env w))"
    by (rule options_item_in_menu) (simp add: options_submenu_def)
  show "submenu_item (t env ''main.menu.options.submenu.tray.label'')
     (tray_submenu env w) \<in> set (flatten_all (mainMenuTemplate env w))"
    by (rule options_item_in_menu) (simp add: options_submenu_def)
  have v: "submenu_item (t env ''main.menu.options.submenu.visual-tweaks.label'')
             (visual_tweaks_submenu env w) \<in> set (flatten_all (mainMenuTemplate env w))"
    by (rule options_item_in_menu) (simp add: options_submenu_def)
  show "submenu_item
          (t env ''main.menu.options.submenu.visual-tweaks.submenu.like-buttons.label'')
          (like_buttons_submenu env w) \<in> set (flatten_all (mainMenuTemplate env w))"
    by (rule nested_item_in_menu [OF v]) (simp add: visual_tweaks_submenu_def)
  show "submenu_item (t env ''main.menu.options.submenu.visual-tweaks.submenu.theme.label'')
          (theme_submenu env w) \<in> set (flatten_all (mainMenuTemplate env w))"
    by (rule nested_item_in_menu [OF v]) (simp add: visual_tweaks_submenu_def)
qed

lemma length_checked_items:
  "length (checked_items items) = length (filter id (map initially_checked items))"
  by (simp add: checked_items_def filter_map comp_def)

lemma one_stored_value:
  assumes "distinct vals"
  shows "(length (filter id (map (\<lambda>n. v = JStr n) vals)) = 1) = (\<exists>n \<in> set vals. v = JStr n)"
proof -
  have count: "length (filter (\<lambda>n. x = n) vals) = (if x \<in> set vals then 1 else 0)" for x
    using assms by (induction vals) auto
  have eq: "filter id (map (\<lambda>n. v = JStr n) vals) =
              map (\<lambda>n. v = JStr n) (filter (\<lambda>n. v = JStr n) vals)"
    by (simp add: filter_map comp_def)
  show ?thesis
  proof (cases "\<exists>x. v = JStr x")
    case True
    then obtain x where "v = JStr x" ..
    then show ?thesis by (simp add: eq count)
  next
    case False
    then show ?thesis by (simp add: eq)
  qed
qed

lemma starting_page_exactly_one:
  assumes "distinct ([] # startingPages env)"
  shows "(length (checked_items (starting_page_submenu env w)) = 1) =
           (\<exists>name \<in> set ([] # startingPages env).
              config_get w ''options.startingPage'' = JStr name)"
  unfolding length_checked_items starting_page_checked
  using assms by (rule one_stored_value)

lemma language_exactly_one:
  assumes "distinct (availableLanguages env)"
  shows "(length (checked_items (language_submenu env w)) = 1) =
           (\<exists>lang \<in> set (availableLanguages env).
              config_get w ''options.language'' = JStr lang)"
  unfolding length_checked_items language_checked
  using assms by (rule one_stored_value)

lemma like_buttons_exactly_one:
  "(length (checked_items (like_buttons_submenu env w)) = 1) =
     (\<not> truthy (config_get w ''options.likeButtons'')
      \<or> config_get w ''options.likeButtons'' = JStr ''force''
      \<or> config_get w ''options.likeButtons'' = JStr ''hide'')"
  unfolding length_checked_items like_buttons_checked by auto

text \<open>
  C6, as the code has it. The five groups are submenus of the built tree. In every
  state the tray group has exactly one checked radio item: disabled when \<open>options.tray\<close>
  is falsy, else enabled-and-show-app or enabled-and-hide-app as \<open>options.appVisible\<close>
  is truthy or falsy. An item of the starting-page or language group is built checked
  exactly when the stored value is the string it writes, and the group has exactly one
  checked item exactly when the stored value is one of the group's strings (the keys
  being distinct, the starting-page names not empty). In the like-buttons group the
  default item is built checked exactly when the stored value is falsy, force-show and
  hide exactly when it is their string, and the group has exactly one checked item
  exactly when one of the three holds. The theme group has one radio item, no-theme,
  built checked exactly when \<open>options.themes\<close> has length zero. In each of the five
  groups, after any radio item (for the language group: checkbox item) is selected and
  the group is built again, that item is the only checked item of the group.
\<close>

theorem radio_groups:
  assumes "distinct ([] # startingPages env)" and "distinct (availableLanguages env)"
  shows
    "submenu_item (t env ''main.menu.options.submenu.starting-page.label'')
         (starting_page_submenu env w) \<in> set (flatten_all (mainMenuTemplate env w))
     \<and> submenu_item
         (t env ''main.menu.options.submenu.visual-tweaks.submenu.like-buttons.label'')
         (like_buttons_submenu env w) \<in> set (flatten_all (mainMenuTemplate env w))
     \<and> submenu_item (t env ''main.menu.options.submenu.visual-tweaks.submenu.theme.label'')
         (theme_submenu env w) \<in> set (flatten_all (mainMenuTemplate env w))
     \<and> submenu_item (t env ''main.menu.options.submenu.tray.label'')
         (tray_submenu env w) \<in> set (flatten_all (mainMenuTemplate env w))
     \<and> submenu_item (t env ''main.menu.options.submenu.language.label'')
         (language_submenu env w) \<in> set (flatten_all (mainMenuTemplate env w))
     \<and> length (checked_items (radio_group (tray_submenu env w))) = 1
     \<and> map initially_checked (radio_group (tray_submenu env w)) =
         [\<not> truthy (config_get w ''options.tray''),
          truthy (config_get w ''options.tray'') \<and> truthy (config_get w ''options.appVisible''),
          truthy (config_get w ''options.tray'')
            \<and> \<not> truthy (config_get w ''options.appVisible'')]
     \<and> map initially_checked (starting_page_submenu env w) =
         map (\<lambda>name. config_get w ''options.startingPage'' = JStr name)
           ([] # startingPages env)
     \<and> (length (checked_items (starting_page_submenu env w)) = 1) =
         (\<exists>name \<in> set ([] # startingPages env).
            config_get w ''options.startingPage'' = JStr name)
     \<and> map initially_checked (like_buttons_submenu env w) =
         [\<not> truthy (config_get w ''options.likeButtons''),
          config_get w ''options.likeButtons'' = JStr ''force'',
          config_get w ''options.likeButtons'' = JStr ''hide'']
     \<and> (length (checked_items (like_buttons_submenu env w)) = 1) =
         (\<not> truthy (config_get w ''options.likeButtons'')
          \<or> config_get w ''options.likeButtons'' = JStr ''force''
          \<or> config_get w ''options.likeButtons'' = JStr ''hide'')
     \<and> map initially_checked (language_submenu env w) =
         map (\<lambda>lang. config_get w ''options.language'' = JStr lang) (availableLanguages env)
     \<and> (length (checked_items (language_submenu env w)) = 1) =
         (\<exists>lang \<in> set (availableLanguages env).
            config_get w ''options.language'' = JStr lang)
     \<and> checked_items (radio_group (theme_submenu env w)) =
         (if truthy (length_is_zero (config_get w ''options.themes''))
          then [theme_submenu env w ! 0] else [])
     \<and> (\<forall>i < length (starting_page_submenu env w).
           only_checked_after_select env starting_page_submenu i c r w)
     \<and> (\<forall>i < length (like_buttons_submenu env w).
           only_checked_after_select env like_buttons_submenu i c r w)
     \<and> (\<forall>i < length (radio_group (tray_submenu env w)).
           only_checked_after_select env (\<lambda>env w. radio_group (tray_submenu env w)) i c r w)
     \<and> (\<forall>i < length (language_submenu env w).
           only_checked_after_select env language_submenu i c r w)
     \<and> (\<forall>i < length (radio_group (theme_submenu env w)).
           only_checked_after_select env (\<lambda>env w. radio_group (theme_submenu env w)) i c r w)"
proof (intro conjI allI impI)
  show "submenu_item (t env ''main.menu.options.submenu.starting-page.label'')
         (starting_page_submenu env w) \<in> set (flatten_all (mainMenuTemplate env w))"
    by (rule groups_in_menu)
  show "submenu_item
         (t env ''main.menu.options.submenu.visual-tweaks.submenu.like-buttons.label'')
         (like_buttons_submenu env w) \<in> set (flatten_all (mainMenuTemplate env w))"
    by (rule groups_in_menu)
  show "submenu_item (t env ''main.menu.options.submenu.visual-tweaks.submenu.theme.label'')
         (theme_submenu env w) \<in> set (flatten_all (mainMenuTemplate env w))"
    by (rule groups_in_menu)
  show "submenu_item (t env ''main.menu.options.submenu.tray.label'')
         (tray_submenu env w) \<in> set (flatten_all (mainMenuTemplate env w))"
    by (rule groups_in_menu)
  show "submenu_item (t env ''main.menu.options.submenu.language.label'')
         (language_submenu env w) \<in> set (flatten_all (mainMenuTemplate env w))"
    by (rule language_submenu_in_menu)
  show "length (checked_items (radio_group (tray_submenu env w))) = 1"
    by (rule tray_exactly_one)
  show "map initially_checked (radio_group (tray_submenu env w)) =
         [\<not> truthy (config_get w ''options.tray''),
          truthy (config_get w ''options.tray'') \<and> truthy (config_get w ''options.appVisible''),
          truthy (config_get w ''options.tray'')
            \<and> \<not> truthy (config_get w ''options.appVisible'')]"
    by (rule tray_checked)
  show "map initially_checked (starting_page_submenu env w) =
         map (\<lambda>name. config_get w ''options.startingPage'' = JStr name)
           ([] # startingPages env)"
    by (rule starting_page_checked)
  show "(length (checked_items (starting_page_submenu env w)) = 1) =
         (\<exists>name \<in> set ([] # startingPages env).
            config_get w ''options.startingPage'' = JStr name)"
    using assms(1) by (rule starting_page_exactly_one)
  show "map initially_checked (like_buttons_submenu env w) =
         [\<not> truthy (config_get w ''options.likeButtons''),
          config_get w ''options.likeButtons'' = JStr ''force'',
          config_get w ''options.likeButtons'' = JStr ''hide'']"
    by (rule like_buttons_checked)
  show "(length (checked_items (like_buttons_submenu env w)) = 1) =
         (\<not> truthy (config_get w ''options.likeButtons'')
          \<or> config_get w ''options.likeButtons'' = JStr ''force''
          \<or> config_get w ''options.likeButtons'' = JStr ''hide'')"
    by (rule like_buttons_exactly_one)
  show "map initially_checked (language_submenu env w) =
         map (\<lambda>lang. config_get w ''options.language'' = JStr lang) (availableLanguages env)"
    by (rule language_checked)
  show "(length (checked_items (language_submenu env w)) = 1) =
         (\<exists>lang \<in> set (availableLanguages env).
            config_get w ''options.language'' = JStr lang)"
    using assms(2) by (rule language_exactly_one)
  show "checked_items (radio_group (theme_submenu env w)) =
         (if truthy (length_is_zero (config_get w ''options.themes''))
          then [theme_submenu env w ! 0] else [])"
    by (rule theme_checked)
  show "only_checked_after_select env starting_page_submenu i c r w"
    if "i < length (starting_page_submenu env w)" for i
    using starting_page_select [OF assms(1) that, of c r]
    by (simp add: only_checked_after_select_def)
  show "only_checked_after_select env like_buttons_submenu i c r w"
    if "i < length (like_buttons_submenu env w)" for i
    using like_buttons_select [OF that, of c r]
    by (simp add: only_checked_after_select_def)
  show "only_checked_after_select env (\<lambda>env w. radio_group (tray_submenu env w)) i c r w"
    if "i < length (radio_group (tray_submenu env w))" for i
    using tray_select [OF that, of c r]
    by (simp add: only_checked_after_select_def)
  show "only_checked_after_select env language_submenu i c r w"
    if "i < length (language_submenu env w)" for i
    using language_select [OF assms(2) that, of c r]
    by (simp add: only_checked_after_select_def)
  show "only_checked_after_select env (\<lambda>env w. radio_group (theme_submenu env w)) i c r w"
    if "i < length (radio_group (theme_submenu env w))" for i
  proof -
    from that have "i = 0" by (simp add: theme_radio_group)
    then show ?thesis
      using theme_select [of env w c r]
      by (simp add: only_checked_after_select_def theme_radio_group)
  qed
qed

theorem radio_groups_demo:
  "1 < length (language_submenu demo_env demo_world)
   \<and> only_checked_after_select demo_env language_submenu 1 True demo_responses demo_world
   \<and> 2 < length (starting_page_submenu demo_env demo_world)
   \<and> only_checked_after_select demo_env starting_page_submenu 2 False demo_responses demo_world
   \<and> length (checked_items (radio_group (tray_submenu demo_env demo_world))) = 1
   \<and> length (checked_items (starting_page_submenu demo_env demo_world)) = 1
   \<and> length (checked_items (like_buttons_submenu demo_env demo_world)) = 1
   \<and> length (checked_items (language_submenu demo_env demo_world)) = 1"
proof -
  have d1: "distinct ([] # startingPages demo_env)"
    by (simp add: demo_env_def)
  have d2: "distinct (availableLanguages demo_env)"
    by (simp add: demo_env_def availableLanguages_def)
  have l1: "1 < length (language_submenu demo_env demo_world)"
    by (simp add: demo_env_def language_submenu_def)
  have l2: "2 < length (starting_page_submenu demo_env demo_world)"
    by (simp add: demo_env_def starting_page_submenu_def)
  have s: "\<exists>name \<in> set ([] # startingPages demo_env).
             config_get demo_world ''options.startingPage'' = JStr name"
    by (simp add: demo_defs config_get_def)
  have k: "\<not> truthy (config_get demo_world ''options.likeButtons'')"
    by (simp add: demo_defs config_get_def)
  have g: "\<exists>lang \<in> set (availableLanguages demo_env).
             config_get demo_world ''options.language'' = JStr lang"
    by (simp add: demo_defs config_get_def availableLanguages_def)
  note th1 = radio_groups [OF d1 d2, of demo_world True demo_responses]
  note th2 = radio_groups [OF d1 d2, of demo_world False demo_responses]
  from th1 l1
  have a: "only_checked_after_select demo_env language_submenu 1 True demo_responses demo_world"
    by blast
  from th2 l2
  have b: "only_checked_after_select demo_env starting_page_submenu 2 False demo_responses
             demo_world"
    by blast
  from th2
  have c: "length (checked_items (radio_group (tray_submenu demo_env demo_world))) = 1"
    by blast
  from th2 s
  have d: "length (checked_items (starting_page_submenu demo_env demo_world)) = 1"
    by blast
  from th2 k
  have e: "length (checked_items (like_buttons_submenu demo_env demo_world)) = 1"
    by blast
  from th2 g
  have f: "length (checked_items (language_submenu demo_env demo_world)) = 1"
    by blast
  from l1 l2 a b c d e f show ?thesis by (intro conjI)
qed

text \<open>
  C6 as stated fails in four of the five groups. After import-css-file is selected
  with the file \<open>a.css\<close> and the menu is rebuilt, no radio item of the theme group is
  checked; and no item of the starting-page, like-buttons or language group is built
  checked when the configuration holds a value that is none of the group's: a starting
  page that is not a key of \<open>startingPages\<close>, another like-buttons string, no language.
\<close>

theorem groups_without_checked_item:
  "config_get
     (select demo_env (theme_submenu demo_env demo_world ! 2) False
        (demo_responses\<lparr>filePaths := JArr [''a.css'']\<rparr>) demo_world)
     ''options.themes'' = JArr [''a.css'']
   \<and> checked_items
       (radio_group
          (theme_submenu demo_env
             (select demo_env (theme_submenu demo_env demo_world ! 2) False
                (demo_responses\<lparr>filePaths := JArr [''a.css'']\<rparr>) demo_world))) = []
   \<and> checked_items
       (starting_page_submenu demo_env
          (config_set ''options.startingPage'' (JStr ''Explore'') demo_world)) = []
   \<and> checked_items
       (like_buttons_submenu demo_env
          (config_set ''options.likeButtons'' (JStr ''show'') demo_world)) = []
   \<and> checked_items
       (language_submenu demo_env
          (config_set ''options.language'' JUndefined demo_world)) = []"
proof (intro conjI)
  show "config_get
     (select demo_env (theme_submenu demo_env demo_world ! 2) False
        (demo_responses\<lparr>filePaths := JArr [''a.css'']\<rparr>) demo_world)
     ''options.themes'' = JArr [''a.css'']"
    by (simp add: theme_submenu_def select_def menu_item_selected_def item_shapes config_defs
          demo_defs)
  then show "checked_items
       (radio_group
          (theme_submenu demo_env
             (select demo_env (theme_submenu demo_env demo_world ! 2) False
                (demo_responses\<lparr>filePaths := JArr [''a.css'']\<rparr>) demo_world))) = []"
    by (simp add: theme_checked)
  show "checked_items
       (starting_page_submenu demo_env
          (config_set ''options.startingPage'' (JStr ''Explore'') demo_world)) = []"
    by (simp add: checked_items_def starting_page_submenu_def demo_env_def item_shapes
          initially_checked_def strict_eq_str_def config_defs)
  show "checked_items
       (like_buttons_submenu demo_env
          (config_set ''options.likeButtons'' (JStr ''show'') demo_world)) = []"
    by (simp add: checked_items_def like_buttons_submenu_def item_shapes
          initially_checked_def strict_eq_str_def js_not_def config_defs)
  show "checked_items
       (language_submenu demo_env
          (config_set ''options.language'' JUndefined demo_world)) = []"
    by (simp add: checked_items_def language_submenu_def demo_env_def item_shapes
          initially_checked_def strict_eq_str_def config_defs)
qed

subsection \<open>The items that display the configuration\<close>

lemma displayed_options_Nil: "displayed_options [] = []"
  by (simp add: displayed_options_def flatten_all_def map_filter_simps)

lemma displayed_options_append:
  "displayed_options (xs @ ys) = displayed_options xs @ displayed_options ys"
  by (simp add: displayed_options_def flatten_all_def map_filter_def)

lemma displayed_options_submenu:
  "displayed_options (submenu_item l xs # rest) = displayed_options xs @ displayed_options rest"
  by (simp add: displayed_options_def flatten_all_def map_filter_simps submenu_item_def
        displayed_option_def map_filter_def)

lemma displayed_options_checkbox:
  "displayed_options (checkbox_item l c h # rest) =
     (case bound_path h of None \<Rightarrow> [] | Some p \<Rightarrow> [(p, Some Checkbox, c)])
     @ displayed_options rest"
  by (simp add: displayed_options_def flatten_all_def map_filter_simps checkbox_item_def
        displayed_option_def split: option.split)

lemma displayed_options_unbound:
  "bound_path h = None \<Longrightarrow> displayed_options (radio_item l c h # rest) = displayed_options rest"
  "bound_path h = None \<Longrightarrow> displayed_options (normal_item l h # rest) = displayed_options rest"
  "bound_path h = None \<Longrightarrow> displayed_options (click_item l h # rest) = displayed_options rest"
  "displayed_options (separator # rest) = displayed_options rest"
  "displayed_options (role_item ro # rest) = displayed_options rest"
  "displayed_options (role_accel_item ro ac # rest) = displayed_options rest"
  by (simp_all add: displayed_options_def flatten_all_def map_filter_simps item_shapes
        displayed_option_def)

lemma map_filter_empty_iff:
  "List.map_filter f xs = [] \<longleftrightarrow> (\<forall>x \<in> set xs. f x = None)"
  by (induction xs) (auto simp: map_filter_simps split: option.splits)

lemma displayed_options_empty_iff:
  "displayed_options xs = [] \<longleftrightarrow>
     (\<forall>x \<in> set xs. \<forall>y \<in> set (flatten x). displayed_option y = None)"
  by (auto simp: displayed_options_def flatten_all_def map_filter_empty_iff)

lemma contributed_not_displayed:
  "y \<in> set (flatten (map_item Contributed x)) \<Longrightarrow> displayed_option y = None"
proof (induction x arbitrary: y)
  case (Item l ty c h sub r a)
  show ?case
  proof (cases sub)
    case None
    with Item.prems show ?thesis
      by (cases h) (auto simp: displayed_option_def)
  next
    case (Some xs)
    with Item.prems consider
        "y = Item l ty c (map_option Contributed h) (Some (map (map_item Contributed) xs)) r a"
      | x where "x \<in> set xs" "y \<in> set (flatten (map_item Contributed x))"
      by auto
    then show ?thesis
    proof cases
      case 1
      then show ?thesis by (cases h) (auto simp: displayed_option_def)
    next
      case 2
      with Some Item.IH show ?thesis by auto
    qed
  qed
qed

lemma displayed_options_contributed:
  "displayed_options (map (map_item Contributed) template) = []"
  by (auto simp: displayed_options_empty_iff contributed_not_displayed)

lemma displayed_options_plugin_entry: "displayed_options [plugin_entry env w pid] = []"
  by (simp add: plugin_entry_def find_menuResult pluginEnabledMenu_def
        displayed_options_submenu displayed_options_checkbox displayed_options_unbound
        displayed_options_contributed displayed_options_Nil split: option.split)

lemma displayed_options_pluginMenus: "displayed_options (pluginMenus env w) = []"
proof -
  have "displayed_options (map (plugin_entry env w) ids) = []" for ids
  proof (induction ids)
    case Nil show ?case by (simp add: displayed_options_Nil)
  next
    case (Cons a ids)
    then show ?case
      using displayed_options_append [of "[plugin_entry env w a]" "map (plugin_entry env w) ids"]
      by (simp add: displayed_options_plugin_entry)
  qed
  then show ?thesis by (simp add: pluginMenus_def)
qed

lemma displayed_options_starting_page: "displayed_options (starting_page_submenu env w) = []"
  by (auto simp: displayed_options_empty_iff starting_page_submenu_def item_shapes
        displayed_option_def)

lemma displayed_options_language: "displayed_options (language_submenu env w) = []"
  by (auto simp: displayed_options_empty_iff language_submenu_def item_shapes
        displayed_option_def)

lemma displayed_options_like_buttons: "displayed_options (like_buttons_submenu env w) = []"
  by (auto simp: displayed_options_empty_iff like_buttons_submenu_def item_shapes
        displayed_option_def)

lemma displayed_options_theme: "displayed_options (theme_submenu env w) = []"
  by (auto simp: displayed_options_empty_iff theme_submenu_def item_shapes
        displayed_option_def)

lemma displayed_options_options_submenu:
  "displayed_options (options_submenu env w) =
     map (\<lambda>p. (p, Some Checkbox, config_get w p)) (checkbox_paths env)"
  by (simp add: options_submenu_def visual_tweaks_submenu_def tray_submenu_def
        advanced_options_submenu_def hide_menu_items_def start_at_login_items_def
        single_instance_lock_item_def always_on_top_item_def set_proxy_item_def
        option_checkbox_def checkbox_paths_def
        displayed_options_append displayed_options_submenu displayed_options_checkbox
        displayed_options_unbound displayed_options_Nil
        displayed_options_starting_page displayed_options_language
        displayed_options_like_buttons displayed_options_theme)

lemma displayed_options_mainMenuTemplate:
  "displayed_options (mainMenuTemplate env w) =
     map (\<lambda>p. (p, Some Checkbox, config_get w p)) (checkbox_paths env)"
  by (simp add: mainMenuTemplate_def view_submenu_def navigation_submenu_def
        displayed_options_submenu displayed_options_unbound displayed_options_Nil
        displayed_options_pluginMenus displayed_options_options_submenu)

lemma bound_click:
  assumes "bound_path h = Some p"
  shows "fst (run_click env h b r w) = b
         \<and> options (snd (run_click env h b r w)) = (options w)(p := JBool b)"
  using assms
  by (cases h) (simp_all add: config_defs showMessageBox_def Let_def)

lemma displayed_option_in_tree:
  assumes "it \<in> set (flatten_all items)" and "displayed_option it = Some d"
  shows "d \<in> set (displayed_options items)"
proof -
  from assms have "it \<in> set (filter (\<lambda>x. displayed_option x \<noteq> None) (flatten_all items))"
    by (cases d) auto
  then have "(the \<circ> displayed_option) it
               \<in> (the \<circ> displayed_option)
                   ` set (filter (\<lambda>x. displayed_option x \<noteq> None) (flatten_all items))"
    by (rule imageI)
  moreover have "(the \<circ> displayed_option) it = d"
    using assms(2) by simp
  ultimately show ?thesis
    unfolding displayed_options_def map_filter_def set_map by (simp only:)
qed

lemma selected_bound_checkbox:
  assumes it: "it \<in> set (flatten_all (mainMenuTemplate env w))"
      and d: "displayed_option it = Some (p, ty, v)"
  shows "fst (menu_item_selected env it c r w) = (\<not> c)
         \<and> options (select env it c r w) = (options w)(p := JBool (\<not> c))"
proof -
  from displayed_option_in_tree [OF it d]
  have "ty = Some Checkbox"
    by (auto simp: displayed_options_mainMenuTemplate)
  moreover from d obtain h where h: "click it = Some h" "bound_path h = Some p" "type it = ty"
    by (auto simp: displayed_option_def split: option.splits)
  ultimately have "menu_item_selected env it c r w = run_click env h (\<not> c) r w"
    by (simp add: menu_item_selected_def del: run_click.simps)
  with bound_click [OF h(2), of env "\<not> c" r w] show ?thesis
    by (simp add: select_def del: run_click.simps)
qed

lemma single_instance_lock_in_menu:
  "single_instance_lock_item env \<in> set (flatten_all (mainMenuTemplate env w))"
  by (rule options_item_in_menu) (simp add: options_submenu_def)

lemma auto_update_in_menu:
  "option_checkbox env w ''main.menu.options.submenu.auto-update'' ''options.autoUpdates''
     \<in> set (flatten_all (mainMenuTemplate env w))"
  by (rule options_item_in_menu) (simp add: options_submenu_def)

lemma checkables_Nil: "checkables [] = []"
  by (simp add: checkables_def flatten_all_def map_filter_simps)

lemma checkables_append: "checkables (xs @ ys) = checkables xs @ checkables ys"
  by (simp add: checkables_def flatten_all_def map_filter_def)

lemma checkables_submenu:
  "checkables (submenu_item l xs # rest) = checkables xs @ checkables rest"
  by (simp add: checkables_def flatten_all_def map_filter_simps submenu_item_def
        checkable_def map_filter_def)

lemma checkables_checkbox:
  "checkables (checkbox_item l c h # rest) =
     (case h of Contributed x \<Rightarrow> [] | _ \<Rightarrow> [(h, c)]) @ checkables rest"
  by (cases h)
     (simp_all add: checkables_def flatten_all_def map_filter_simps checkbox_item_def
        checkable_def)

lemma checkables_radio:
  "checkables (radio_item l c h # rest) =
     (case h of Contributed x \<Rightarrow> [] | _ \<Rightarrow> [(h, c)]) @ checkables rest"
  by (cases h)
     (simp_all add: checkables_def flatten_all_def map_filter_simps radio_item_def
        checkable_def)

lemma checkables_plain:
  "checkables (normal_item l h # rest) = checkables rest"
  "checkables (click_item l h # rest) = checkables rest"
  "checkables (separator # rest) = checkables rest"
  "checkables (role_item ro # rest) = checkables rest"
  "checkables (role_accel_item ro ac # rest) = checkables rest"
  by (simp_all add: checkables_def flatten_all_def map_filter_simps item_shapes checkable_def)

lemma contributed_not_checkable:
  "y \<in> set (flatten (map_item Contributed x)) \<Longrightarrow> checkable y = None"
proof (induction x arbitrary: y)
  case (Item l ty c h sub r a)
  show ?case
  proof (cases sub)
    case None
    with Item.prems show ?thesis
      by (cases h) (auto simp: checkable_def)
  next
    case (Some xs)
    with Item.prems consider
        "y = Item l ty c (map_option Contributed h) (Some (map (map_item Contributed) xs)) r a"
      | x where "x \<in> set xs" "y \<in> set (flatten (map_item Contributed x))"
      by auto
    then show ?thesis
    proof cases
      case 1
      then show ?thesis by (cases h) (auto simp: checkable_def)
    next
      case 2
      with Some Item.IH show ?thesis by auto
    qed
  qed
qed

lemma checkables_contributed: "checkables (map (map_item Contributed) template) = []"
  by (auto simp: checkables_def flatten_all_def map_filter_empty_iff
        contributed_not_checkable)

lemma checkables_plugin_entry:
  "checkables (plugin_entry env w pid # rest) =
     (PluginEnabledClick pid True (Some InnerRefreshMenu), JBool (plugins_isEnabled w pid))
     # checkables rest"
  by (simp add: plugin_entry_def find_menuResult pluginEnabledMenu_def
        checkables_submenu checkables_checkbox checkables_plain checkables_contributed
        split: option.split)

lemma checkables_pluginMenus:
  "checkables (pluginMenus env w) =
     map (\<lambda>pid. (PluginEnabledClick pid True (Some InnerRefreshMenu),
                 JBool (plugins_isEnabled w pid)))
       (array_sort (\<lambda>a b. localeCompare env (pluginLabel env a) (pluginLabel env b))
          (availablePlugins env))"
proof -
  have "checkables (map (plugin_entry env w) ids) =
          map (\<lambda>pid. (PluginEnabledClick pid True (Some InnerRefreshMenu),
                      JBool (plugins_isEnabled w pid))) ids" for ids
    by (induction ids) (simp_all add: checkables_Nil checkables_plugin_entry)
  then show ?thesis by (simp add: pluginMenus_def)
qed

lemma checkables_starting_page:
  "checkables (starting_page_submenu env w) =
     map (\<lambda>name. (ConfigSet ''options.startingPage'' (JStr name),
                  JBool (config_get w ''options.startingPage'' = JStr name)))
       ([] # startingPages env)"
proof -
  have "checkables
          (map (\<lambda>name. radio_item name
                  (strict_eq_str (config_get w ''options.startingPage'') name)
                  (ConfigSet ''options.startingPage'' (JStr name))) names) =
        map (\<lambda>name. (ConfigSet ''options.startingPage'' (JStr name),
                  JBool (config_get w ''options.startingPage'' = JStr name))) names" for names
    by (induction names) (simp_all add: checkables_Nil checkables_radio strict_eq_str_def)
  then show ?thesis
    by (simp add: starting_page_submenu_def checkables_radio strict_eq_str_def)
qed

lemma checkables_language:
  "checkables (language_submenu env w) =
     map (\<lambda>lang. (SelectLanguage lang,
                  JBool (config_get w ''options.language'' = JStr lang)))
       (availableLanguages env)"
proof -
  have "checkables
          (map (\<lambda>(lang, name, local_name).
                  checkbox_item (name @ '' ('' @ local_name @ '')'')
                    (strict_eq_str (config_get w ''options.language'') lang)
                    (SelectLanguage lang)) bundles) =
        map (\<lambda>lang. (SelectLanguage lang,
                     JBool (config_get w ''options.language'' = JStr lang)))
          (map fst bundles)" for bundles
    by (induction bundles)
       (simp_all add: checkables_Nil checkables_checkbox strict_eq_str_def case_prod_beta)
  then show ?thesis
    by (simp add: language_submenu_def availableLanguages_def)
qed

lemma checkables_options_submenu:
  "checkables (submenu_item l (pluginMenus env w) # submenu_item l' (options_submenu env w)
               # rest) =
     configuration_view env w @ checkables rest"
  by (simp add: configuration_view_def checkables_submenu checkables_pluginMenus
        options_submenu_def visual_tweaks_submenu_def like_buttons_submenu_def
        theme_submenu_def tray_submenu_def advanced_options_submenu_def
        hide_menu_items_def start_at_login_items_def single_instance_lock_item_def
        always_on_top_item_def set_proxy_item_def option_checkbox_def
        checkables_append checkables_checkbox checkables_radio checkables_plain
        checkables_Nil checkables_starting_page checkables_language
        js_not_def js_and_def strict_eq_str_def)

lemma checkables_mainMenuTemplate:
  "checkables (mainMenuTemplate env w) = configuration_view env w"
proof -
  have rest: "checkables
                [submenu_item (t env ''main.menu.view.label'') (view_submenu env),
                 submenu_item (t env ''main.menu.navigation.label'') (navigation_submenu env),
                 submenu_item (t env ''main.menu.about'') [role_item ''about'']] = []"
    by (simp add: view_submenu_def navigation_submenu_def checkables_submenu
          checkables_plain checkables_Nil)
  show ?thesis
    by (simp only: mainMenuTemplate_def checkables_options_submenu rest append_Nil2)
qed

text \<open>
  C1, as the code has it. The items of the built tree that can be checked, those that
  plugins contribute aside, are those of \<open>configuration_view\<close>, in its order, each
  built with the value of \<open>checked\<close> given there: every one of them but
  single-instance-lock reflects the configuration when the menu is built. The
  checkboxes whose handler writes \<open>item.checked\<close> to a configuration path are those of
  the paths of \<open>checkbox_paths\<close>, each built with \<open>checked\<close> equal to the value of its
  path. Selecting such a checkbox flips it and writes the new state to its path, and
  the menu built afterwards shows the new value for that path and the old values for
  the others. The single-instance-lock checkbox is not bound to a configuration path:
  it is built with \<open>checked: true\<close>, whatever the state of the lock.
\<close>

theorem option_checkboxes_reflect_configuration:
  "checkables (mainMenuTemplate env w) = configuration_view env w
   \<and> displayed_options (mainMenuTemplate env w) =
     map (\<lambda>p. (p, Some Checkbox, config_get w p)) (checkbox_paths env)
   \<and> (\<forall>it \<in> set (flatten_all (mainMenuTemplate env w)). \<forall>p ty v.
         displayed_option it = Some (p, ty, v) \<longrightarrow>
           fst (menu_item_selected env it c r w) = (\<not> c)
           \<and> config_get (select env it c r w) p = JBool (\<not> c)
           \<and> displayed_options (mainMenuTemplate env (select env it c r w)) =
               map (\<lambda>q. (q, Some Checkbox, if q = p then JBool (\<not> c) else config_get w q))
                 (checkbox_paths env))
   \<and> single_instance_lock_item env \<in> set (flatten_all (mainMenuTemplate env w))
   \<and> type (single_instance_lock_item env) = Some Checkbox
   \<and> checked (single_instance_lock_item env) = JBool True"
proof (intro conjI ballI allI impI)
  show "checkables (mainMenuTemplate env w) = configuration_view env w"
    by (rule checkables_mainMenuTemplate)
next
  show "displayed_options (mainMenuTemplate env w) =
          map (\<lambda>p. (p, Some Checkbox, config_get w p)) (checkbox_paths env)"
    by (rule displayed_options_mainMenuTemplate)
next
  fix it p ty v
  assume it: "it \<in> set (flatten_all (mainMenuTemplate env w))"
    and d: "displayed_option it = Some (p, ty, v)"
  note sel = selected_bound_checkbox [OF it d, of c r]
  from sel show "fst (menu_item_selected env it c r w) = (\<not> c)" by simp
  from sel show "config_get (select env it c r w) p = JBool (\<not> c)"
    by (simp add: config_get_def)
  from sel show "displayed_options (mainMenuTemplate env (select env it c r w)) =
      map (\<lambda>q. (q, Some Checkbox, if q = p then JBool (\<not> c) else config_get w q))
        (checkbox_paths env)"
    by (simp add: displayed_options_mainMenuTemplate config_get_def)
next
  show "single_instance_lock_item env \<in> set (flatten_all (mainMenuTemplate env w))"
    by (rule single_instance_lock_in_menu)
  show "type (single_instance_lock_item env) = Some Checkbox"
    by (simp add: single_instance_lock_item_def checkbox_item_def)
  show "checked (single_instance_lock_item env) = JBool True"
    by (simp add: single_instance_lock_item_def checkbox_item_def)
qed

theorem auto_update_toggle_demo:
  "option_checkbox demo_env demo_world ''main.menu.options.submenu.auto-update''
       ''options.autoUpdates''
     \<in> set (flatten_all (mainMenuTemplate demo_env demo_world))
   \<and> displayed_option
       (option_checkbox demo_env demo_world ''main.menu.options.submenu.auto-update''
          ''options.autoUpdates'')
       = Some (''options.autoUpdates'', Some Checkbox, JBool True)
   \<and> config_get
       (select demo_env
          (option_checkbox demo_env demo_world ''main.menu.options.submenu.auto-update''
             ''options.autoUpdates'')
          True demo_responses demo_world)
       ''options.autoUpdates'' = JBool False
   \<and> hd (displayed_options
           (mainMenuTemplate demo_env
              (select demo_env
                 (option_checkbox demo_env demo_world ''main.menu.options.submenu.auto-update''
                    ''options.autoUpdates'')
                 True demo_responses demo_world)))
       = (''options.autoUpdates'', Some Checkbox, JBool False)"
proof -
  let ?it = "option_checkbox demo_env demo_world ''main.menu.options.submenu.auto-update''
       ''options.autoUpdates''"
  have m: "?it \<in> set (flatten_all (mainMenuTemplate demo_env demo_world))"
    by (rule auto_update_in_menu)
  have d: "displayed_option ?it = Some (''options.autoUpdates'', Some Checkbox, JBool True)"
    by (simp add: option_checkbox_def checkbox_item_def displayed_option_def config_get_def
          demo_world_def demo_options_def)
  from option_checkboxes_reflect_configuration [of demo_env demo_world True demo_responses] m d
  have "config_get (select demo_env ?it True demo_responses demo_world) ''options.autoUpdates''
          = JBool (\<not> True)
        \<and> displayed_options (mainMenuTemplate demo_env
              (select demo_env ?it True demo_responses demo_world)) =
            map (\<lambda>q. (q, Some Checkbox,
                   if q = ''options.autoUpdates'' then JBool (\<not> True)
                   else config_get demo_world q))
              (checkbox_paths demo_env)"
    by blast
  then show ?thesis
    using m d by (simp add: checkbox_paths_def)
qed

text \<open>
  C1 as stated fails for single-instance-lock: after the checkbox is unchecked the lock
  is released, and the menu built in that state still has the item checked.
\<close>

theorem single_instance_lock_stays_checked:
  "hasSingleInstanceLock demo_world
   \<and> \<not> hasSingleInstanceLock
         (select demo_env (single_instance_lock_item demo_env) True demo_responses demo_world)
   \<and> single_instance_lock_item demo_env
       \<in> set (flatten_all
                (mainMenuTemplate demo_env
                   (select demo_env (single_instance_lock_item demo_env) True demo_responses
                      demo_world)))
   \<and> checked (single_instance_lock_item demo_env) = JBool True"
  by (simp add: single_instance_lock_in_menu)
     (simp add: single_instance_lock_item_def checkbox_item_def select_def
        menu_item_selected_def demo_world_def)

end
